theory Spec2Isabelle
  imports Main "HOL-Library.Sublist"
begin

section \<open>Python values and exceptions\<close>

text \<open>
  The values that travel through \<^verbatim>\<open>nova.py\<close> and \<^verbatim>\<open>auth_password.py\<close>:
  \<^verbatim>\<open>None\<close>, booleans, integers, strings, lists and dictionaries. A dictionary is an
  association list in iteration order; its keys are strings, as in the JSON documents
  (server metadata, token bodies) the two modules handle.
\<close>

datatype pyval =
    PNone
  | PBool bool
  | PInt int
  | PStr string
  | PList "pyval list"
  | PDict "(string \<times> pyval) list"

fun truthy :: "pyval \<Rightarrow> bool" where
  "truthy PNone = False"
| "truthy (PBool b) = b"
| "truthy (PInt i) = (i \<noteq> 0)"
| "truthy (PStr s) = (s \<noteq> [])"
| "truthy (PList xs) = (xs \<noteq> [])"
| "truthy (PDict kvs) = (kvs \<noteq> [])"

fun is_string :: "pyval \<Rightarrow> bool" where
  "is_string (PStr s) = True"
| "is_string v = False"

text \<open>
  \<^verbatim>\<open>novaclient.exceptions\<close>: the family rooted at \<^verbatim>\<open>ClientException\<close>. An exception
  object has a class and may or may not have the attributes \<^verbatim>\<open>http_status\<close> and
  \<^verbatim>\<open>code\<close> (\<open>None\<close> here is "no such attribute", the case \<^verbatim>\<open>getattr\<close>'s default
  covers), and a \<^verbatim>\<open>message\<close>.
\<close>

datatype nova_class = ClientException | BadRequest | NotFound | OverLimit | Conflict

record nova_exc =
  exc_class :: nova_class
  http_status :: "pyval option"
  code :: "pyval option"
  message :: string

datatype keystone_class =
  KsUnauthorized | KsForbidden | KsNotFound | KsAuthorizationFailure | KsOther

text \<open>
  Everything the modelled functions can raise. \<open>Nova\<close> is an instance of
  \<^verbatim>\<open>exceptions.ClientException\<close> or of a subclass; the others are not.
\<close>

datatype error =
    Nova nova_exc
  | Keystone keystone_class
  | AttributeError string
  | KeyError string
  | TypeError string
  | StackValidationFailed string
  | ResourceInError string string
  | ResourceUnknownStatus string string
  | OtherError string

fun is_not_found :: "error \<Rightarrow> bool" where
  "is_not_found (Nova ex) = (exc_class ex = NotFound)"
| "is_not_found e = False"

section \<open>Servers and the provider\<close>

text \<open>
  A server object as the client sees it: \<^verbatim>\<open>fault\<close> and \<^verbatim>\<open>OS-EXT-STS:task_state\<close> are
  read with \<^verbatim>\<open>getattr\<close> and a default, so they are optional attributes.
\<close>

record server =
  name :: string
  status :: string
  task_state :: "pyval option"
  fault :: "(string \<times> pyval) list option"
  metadata :: "(string \<times> pyval) list"

text \<open>
  The remote calls of \<^verbatim>\<open>self.client()\<close>, each either returning or raising:
  \<^verbatim>\<open>servers.get(id)\<close>, the in-place \<^verbatim>\<open>server.get()\<close> (which yields the refreshed
  object), \<^verbatim>\<open>servers.delete_meta\<close> and \<^verbatim>\<open>servers.set_meta\<close>.
\<close>

record nova =
  servers_get :: "string \<Rightarrow> error + server"
  server_get :: "server \<Rightarrow> error + server"
  delete_meta :: "server \<Rightarrow> string list \<Rightarrow> error option"
  set_meta :: "server \<Rightarrow> (string \<times> pyval) list \<Rightarrow> error option"

text \<open>
  \<^verbatim>\<open>getattr(exc, 'http_status', getattr(exc, 'code', None)) in (500, 503)\<close>:
  the \<^verbatim>\<open>code\<close> attribute is consulted only when there is no \<^verbatim>\<open>http_status\<close>.
\<close>

definition status_attr :: "nova_exc \<Rightarrow> pyval" where
  "status_attr exc =
     (case http_status exc of
        Some v \<Rightarrow> v
      | None \<Rightarrow> (case code exc of Some v \<Rightarrow> v | None \<Rightarrow> PNone))"

definition in_500_503 :: "pyval \<Rightarrow> bool" where
  "in_500_503 v = (v = PInt 500 \<or> v = PInt 503)"

text \<open>\<^verbatim>\<open>fetch_server\<close>: \<open>Inr None\<close> is the \<^verbatim>\<open>None\<close> returned after a logged warning.\<close>

definition fetch_server :: "nova \<Rightarrow> string \<Rightarrow> error + server option" where
  "fetch_server nv server_id =
     (case servers_get nv server_id of
        Inr srv \<Rightarrow> Inr (Some srv)
      | Inl (Nova exc) \<Rightarrow>
          if exc_class exc = OverLimit then Inr None
          else if in_500_503 (status_attr exc) then Inr None
          else Inl (Nova exc)
      | Inl e \<Rightarrow> Inl e)"

text \<open>\<^verbatim>\<open>refresh_server\<close>: the same policy; a tolerated error leaves the object as it was.\<close>

definition refresh_server :: "nova \<Rightarrow> server \<Rightarrow> error + server" where
  "refresh_server nv srv =
     (case server_get nv srv of
        Inr srv' \<Rightarrow> Inr srv'
      | Inl (Nova exc) \<Rightarrow>
          if exc_class exc = OverLimit then Inr srv
          else if in_500_503 (status_attr exc) then Inr srv
          else Inl (Nova exc)
      | Inl e \<Rightarrow> Inl e)"

section \<open>Status classification\<close>

text \<open>\<^verbatim>\<open>str.split(sep)\<close> for a one-character separator: never the empty list.\<close>

fun split :: "char \<Rightarrow> string \<Rightarrow> string list" where
  "split sep [] = [[]]"
| "split sep (c # cs) =
     (if c = sep then [] # split sep cs
      else (case split sep cs of
              w # ws \<Rightarrow> (c # w) # ws
            | [] \<Rightarrow> [[c]]))"

definition get_status :: "server \<Rightarrow> string" where
  "get_status srv = hd (split CHR ''('' (status srv))"

definition deferred_server_statuses :: "string list" where
  "deferred_server_statuses =
     [''BUILD'', ''HARD_REBOOT'', ''PASSWORD'', ''REBOOT'', ''RESCUE'', ''RESIZE'',
      ''REVERT_RESIZE'', ''SHUTOFF'', ''SUSPENDED'', ''VERIFY_RESIZE'']"

text \<open>
  The module binds \<^verbatim>\<open>resource = None\<close> (line 41, under a to-do comment) and never
  rebinds it, so the attribute lookups \<^verbatim>\<open>resource.ResourceInError\<close> and
  \<^verbatim>\<open>resource.ResourceUnknownStatus\<close> are lookups on \<^verbatim>\<open>None\<close>. Python evaluates the
  callee before the arguments of a call, so the lookup fails before the exception
  object would be built.
\<close>

definition resource :: "unit option" where
  "resource = None"

definition resource_ResourceInError :: "string \<Rightarrow> string \<Rightarrow> error" where
  "resource_ResourceInError resource_status status_reason =
     (case resource of
        None \<Rightarrow> AttributeError ''ResourceInError''
      | Some _ \<Rightarrow> ResourceInError resource_status status_reason)"

definition resource_ResourceUnknownStatus :: "string \<Rightarrow> string \<Rightarrow> error" where
  "resource_ResourceUnknownStatus resource_status result =
     (case resource of
        None \<Rightarrow> AttributeError ''ResourceUnknownStatus''
      | Some _ \<Rightarrow> ResourceUnknownStatus resource_status result)"

text \<open>
  \<^verbatim>\<open>'%s' % v\<close>: a string as it is, anything else by its \<^verbatim>\<open>repr\<close> (decimal
  integers, containers element by element; the escapes inside quoted strings are not
  modelled).
\<close>

function str_of_nat :: "nat \<Rightarrow> string" where
  "str_of_nat n =
     (if n < 10 then [''0123456789'' ! n]
      else str_of_nat (n div 10) @ [''0123456789'' ! (n mod 10)])"
  by pat_completeness auto
termination
  by (relation "measure id") auto

definition str_of_int :: "int \<Rightarrow> string" where
  "str_of_int i =
     (if i < 0 then CHR ''-'' # str_of_nat (nat (- i)) else str_of_nat (nat i))"

text \<open>\<^verbatim>\<open>sep.join(xs)\<close> on a list of strings.\<close>

fun join :: "string \<Rightarrow> string list \<Rightarrow> string" where
  "join sep [] = []"
| "join sep [x] = x"
| "join sep (x # y # ys) = x @ sep @ join sep (y # ys)"

fun py_repr :: "pyval \<Rightarrow> string" where
  "py_repr PNone = ''None''"
| "py_repr (PBool b) = (if b then ''True'' else ''False'')"
| "py_repr (PInt i) = str_of_int i"
| "py_repr (PStr s) = [CHR 0x27] @ s @ [CHR 0x27]"
| "py_repr (PList xs) = ''['' @ join '', '' (map py_repr xs) @ '']''"
| "py_repr (PDict kvs) =
     ''{'' @ join '', ''
        (map (\<lambda>(k, v). [CHR 0x27] @ k @ [CHR 0x27] @ '': '' @ py_repr v) kvs) @ ''}''"

definition py_str :: "pyval \<Rightarrow> string" where
  "py_str v = (case v of PStr s \<Rightarrow> s | _ \<Rightarrow> py_repr v)"

text \<open>\<^verbatim>\<open>fault.get(key, default)\<close> on the fault mapping, \<^verbatim>\<open>{}\<close> when the attribute is missing.\<close>

definition fault_get :: "server \<Rightarrow> string \<Rightarrow> pyval \<Rightarrow> pyval" where
  "fault_get srv key dflt =
     (case map_of (case fault srv of None \<Rightarrow> [] | Some f \<Rightarrow> f) key of
        Some v \<Rightarrow> v
      | None \<Rightarrow> dflt)"

text \<open>The \<^verbatim>\<open>if/elif\<close> chain that ends \<^verbatim>\<open>_check_active\<close>.\<close>

definition check_active_status :: "server \<Rightarrow> string \<Rightarrow> string \<Rightarrow> error + bool" where
  "check_active_status srv st res_name =
     (if st \<in> set deferred_server_statuses then Inr False
      else if st = ''ACTIVE'' then Inr True
      else if st = ''ERROR'' then
        Inl (resource_ResourceInError st
               (''Message: '' @ py_str (fault_get srv ''message'' (PStr ''Unknown'')) @
                '', Code: '' @ py_str (fault_get srv ''code'' (PStr ''Unknown''))))
      else
        Inl (resource_ResourceUnknownStatus (status srv) (res_name @ '' is not active'')))"

text \<open>\<^verbatim>\<open>_check_active\<close> accepts a server id (a string) or a server object.\<close>

datatype server_arg = ServerId string | ServerObj server

definition check_active :: "nova \<Rightarrow> server_arg \<Rightarrow> string \<Rightarrow> error + bool" where
  "check_active nv arg res_name =
     (case arg of
        ServerId server_id \<Rightarrow>
          (case fetch_server nv server_id of
             Inl e \<Rightarrow> Inl e
           | Inr None \<Rightarrow> Inr False
           | Inr (Some srv) \<Rightarrow> check_active_status srv (get_status srv) res_name)
      | ServerObj srv \<Rightarrow>
          (if get_status srv \<noteq> ''ACTIVE'' then
             (case refresh_server nv srv of
                Inl e \<Rightarrow> Inl e
              | Inr srv' \<Rightarrow> check_active_status srv' (get_status srv') res_name)
           else check_active_status srv (get_status srv) res_name))"

text \<open>
  Modelled from the spec: \<^verbatim>\<open>ignore_not_found\<close> belongs to the base class
  \<^verbatim>\<open>client_plugin.ClientPlugin\<close>, which is not among the sources. The spec has a
  not-found error of the fetch mean "deletion complete" and every error the client does
  not recognise re-raised unchanged; \<^verbatim>\<open>is_not_found\<close> is the plugin's own predicate.
\<close>

definition ignore_not_found :: "error \<Rightarrow> error + unit" where
  "ignore_not_found ex = (if is_not_found ex then Inr () else Inl ex)"

text \<open>
  \<^verbatim>\<open>check_delete_server_complete\<close>. A server object is a true value, so \<^verbatim>\<open>not server\<close>
  holds for \<^verbatim>\<open>None\<close> alone.
\<close>

definition check_delete_server_complete :: "nova \<Rightarrow> string \<Rightarrow> error + bool" where
  "check_delete_server_complete nv server_id =
     (case fetch_server nv server_id of
        Inl exc \<Rightarrow> (case ignore_not_found exc of Inl e \<Rightarrow> Inl e | Inr _ \<Rightarrow> Inr True)
      | Inr None \<Rightarrow> Inr False
      | Inr (Some srv) \<Rightarrow>
          if task_state srv = Some (PStr ''deleting'') then Inr False
          else
            (let st = get_status srv in
             if st \<in> set [''DELETED'', ''SOFT_DELETED''] then Inr True
             else if st = ''ERROR'' then
               Inl (resource_ResourceInError st
                      (''Server '' @ name srv @ '' delete failed: ('' @
                       py_str (fault_get srv ''code'' PNone) @ '') '' @
                       py_str (fault_get srv ''message'' (PStr ''Unknown''))))
             else Inr False))"

section \<open>Metadata\<close>

text \<open>
  \<^verbatim>\<open>meta_serialize\<close>. \<^verbatim>\<open>jsonutils.dumps\<close> is the JSON encoder of
  \<^verbatim>\<open>oslo_serialization\<close>, outside this repository: the parameter \<open>dumps\<close>.
\<close>

definition meta_serialize :: "(pyval \<Rightarrow> string) \<Rightarrow> pyval \<Rightarrow> error + (string \<times> pyval) list" where
  "meta_serialize dumps md =
     (case md of
        PDict items \<Rightarrow>
          Inr (map (\<lambda>(key, value).
                      (key, if is_string value then value else PStr (dumps value))) items)
      | _ \<Rightarrow> Inl (StackValidationFailed ''nova server metadata needs to be a Map.''))"

text \<open>
  \<^verbatim>\<open>meta_update\<close> returns nothing; what it does is the calls it makes on the provider.
  The model returns them in the order made, with the exception that ended the function,
  if one did.
\<close>

datatype meta_call = DeleteMeta "string list" | SetMeta "(string \<times> pyval) list"

definition to_del :: "server \<Rightarrow> (string \<times> pyval) list \<Rightarrow> string list" where
  "to_del srv md = filter (\<lambda>key. key \<notin> set (map fst md)) (map fst (metadata srv))"

definition meta_update ::
  "nova \<Rightarrow> (pyval \<Rightarrow> string) \<Rightarrow> server \<Rightarrow> pyval \<Rightarrow> meta_call list \<times> error option" where
  "meta_update nv dumps srv desired =
     (case meta_serialize dumps desired of
        Inl e \<Rightarrow> ([], Some e)
      | Inr md \<Rightarrow>
          if length (to_del srv md) > 0 then
            (case delete_meta nv srv (to_del srv md) of
               Some e \<Rightarrow> ([DeleteMeta (to_del srv md)], Some e)
             | None \<Rightarrow> ([DeleteMeta (to_del srv md), SetMeta md], set_meta nv srv md))
          else ([SetMeta md], set_meta nv srv md))"

section \<open>Console URLs\<close>

text \<open>
  The four console calls of a server object, each taking the console type and returning
  the provider's answer or raising. \<^verbatim>\<open>console_methods\<close> is the dictionary built in
  \<^verbatim>\<open>ConsoleUrls.__init__\<close>, in the order written there. A Python 2 dictionary iterates in
  an order of its own; the claims about it are about its keys as a set.
\<close>

record console_server =
  get_vnc_console :: "string \<Rightarrow> error + pyval"
  get_spice_console :: "string \<Rightarrow> error + pyval"
  get_rdp_console :: "string \<Rightarrow> error + pyval"
  get_serial_console :: "string \<Rightarrow> error + pyval"

definition console_methods :: "console_server \<Rightarrow> (string \<times> (string \<Rightarrow> error + pyval)) list" where
  "console_methods srv =
     [(''novnc'', get_vnc_console srv),
      (''xvpvnc'', get_vnc_console srv),
      (''spice-html5'', get_spice_console srv),
      (''rdp-html5'', get_rdp_console srv),
      (''serial'', get_serial_console srv)]"

text \<open>Subscription \<^verbatim>\<open>d[key]\<close> with a string key.\<close>

definition py_getitem :: "pyval \<Rightarrow> string \<Rightarrow> error + pyval" where
  "py_getitem d key =
     (case d of
        PDict kvs \<Rightarrow> (case map_of kvs key of Some v \<Rightarrow> Inr v | None \<Rightarrow> Inl (KeyError key))
      | _ \<Rightarrow> Inl (TypeError key))"

definition and_then :: "error + 'a \<Rightarrow> ('a \<Rightarrow> error + 'b) \<Rightarrow> error + 'b" where
  "and_then m f = (case m of Inl e \<Rightarrow> Inl e | Inr x \<Rightarrow> f x)"

text \<open>
  \<^verbatim>\<open>ConsoleUrls.__getitem__\<close>. Only a \<^verbatim>\<open>BadRequest\<close> is caught, wherever in the
  \<^verbatim>\<open>try\<close> body it arises; the subscriptions raise \<^verbatim>\<open>KeyError\<close> or
  \<^verbatim>\<open>TypeError\<close> only.
\<close>

definition unavailable :: string where
  "unavailable = ''Unavailable console type''"

definition console_getitem :: "console_server \<Rightarrow> string \<Rightarrow> error + pyval" where
  "console_getitem srv key =
     (case map_of (console_methods srv) key of
        None \<Rightarrow> Inl (KeyError key)
      | Some method \<Rightarrow>
          (case and_then (and_then (method key) (\<lambda>r. py_getitem r ''console''))
                     (\<lambda>c. py_getitem c ''url'') of
             Inr url \<Rightarrow> Inr url
           | Inl (Nova e) \<Rightarrow>
               if exc_class e = BadRequest then
                 (if sublist unavailable (message e) then Inr (PStr (message e))
                  else Inl (Nova e))
               else Inl (Nova e)
           | Inl e \<Rightarrow> Inl e))"

definition console_len :: "console_server \<Rightarrow> nat" where
  "console_len srv = length (console_methods srv)"

definition console_iter :: "console_server \<Rightarrow> string list" where
  "console_iter srv = map fst (console_methods srv)"

section \<open>Boot payload\<close>

text \<open>
  \<^verbatim>\<open>string.Template(t).safe_substitute(**m)\<close> of Python 2: at a \<^verbatim>\<open>$\<close> the pattern tries,
  in this order, the escape \<^verbatim>\<open>$$\<close>, a named placeholder \<^verbatim>\<open>$id\<close> (the longest
  identifier), a braced placeholder \<^verbatim>\<open>${id}\<close>, and otherwise leaves the \<^verbatim>\<open>$\<close> alone.
  A placeholder whose name is not in the mapping stays as written; substituted text is not
  scanned again.
\<close>

definition is_id_start :: "char \<Rightarrow> bool" where
  "is_id_start c =
     (c = CHR ''_'' \<or> c \<in> set ''abcdefghijklmnopqrstuvwxyzABCDEFGHIJKLMNOPQRSTUVWXYZ'')"

definition is_id_char :: "char \<Rightarrow> bool" where
  "is_id_char c = (is_id_start c \<or> c \<in> set ''0123456789'')"

function safe_substitute :: "(string \<times> string) list \<Rightarrow> string \<Rightarrow> string" where
  "safe_substitute m [] = []"
| "safe_substitute m (c # cs) =
     (if c \<noteq> CHR ''$'' then c # safe_substitute m cs
      else if cs \<noteq> [] \<and> hd cs = CHR ''$'' then CHR ''$'' # safe_substitute m (tl cs)
      else if cs \<noteq> [] \<and> is_id_start (hd cs) then
        (case map_of m (takeWhile is_id_char cs) of
           Some v \<Rightarrow> v
         | None \<Rightarrow> CHR ''$'' # takeWhile is_id_char cs)
        @ safe_substitute m (dropWhile is_id_char cs)
      else if cs \<noteq> [] \<and> hd cs = CHR ''{'' \<and> tl cs \<noteq> [] \<and> is_id_start (hd (tl cs))
              \<and> dropWhile is_id_char (tl cs) \<noteq> []
              \<and> hd (dropWhile is_id_char (tl cs)) = CHR ''}'' then
        (case map_of m (takeWhile is_id_char (tl cs)) of
           Some v \<Rightarrow> v
         | None \<Rightarrow> ''${'' @ takeWhile is_id_char (tl cs) @ ''}'')
        @ safe_substitute m (tl (dropWhile is_id_char (tl cs)))
      else CHR ''$'' # safe_substitute m cs)"
  by pat_completeness auto
termination
proof (relation "measure (\<lambda>(m, s). length s)")
  show "wf (measure (\<lambda>(m, s). length s))" by simp
next
  fix m :: "(string \<times> string) list" and c :: char and cs :: string
  show "((m, tl cs), m, c # cs) \<in> measure (\<lambda>(m, s). length s)" by simp
  show "((m, dropWhile is_id_char cs), m, c # cs) \<in> measure (\<lambda>(m, s). length s)"
    by (simp add: length_dropWhile_le less_Suc_eq_le)
  have "length (tl (dropWhile is_id_char (tl cs))) \<le> length (dropWhile is_id_char (tl cs))"
    by simp
  also have "\<dots> \<le> length (tl cs)" by (rule length_dropWhile_le)
  also have "\<dots> \<le> length cs" by simp
  finally show "((m, tl (dropWhile is_id_char (tl cs))), m, c # cs) \<in> measure (\<lambda>(m, s). length s)"
    by simp
qed simp_all

text \<open>
  \<^verbatim>\<open>os.path.splitext(p)[0]\<close> (POSIX): cut at the last dot, when that dot comes after
  the last \<^verbatim>\<open>/\<close> and some character between the two is not a dot.
\<close>

definition splitext_root :: "string \<Rightarrow> string" where
  "splitext_root p =
     (let ext = rev (takeWhile (\<lambda>c. c \<noteq> CHR ''.'') (rev p));
          root = take (length p - length ext - 1) p;
          base = rev (takeWhile (\<lambda>c. c \<noteq> CHR ''/'') (rev root))
      in if CHR ''.'' \<in> set p \<and> CHR ''/'' \<notin> set ext \<and> list_ex (\<lambda>c. c \<noteq> CHR ''.'') base
         then root else p)"

text \<open>
  What \<^verbatim>\<open>build_userdata\<close> takes from outside the module: the packaged
  \<^verbatim>\<open>cloudinit/\<close> files (\<^verbatim>\<open>pkgutil.get_data\<close>; the files are not among the sources),
  four options of \<^verbatim>\<open>cfg.CONF\<close>, \<^verbatim>\<open>urlparse.urlparse(url).hostname\<close>,
  \<^verbatim>\<open>jsonutils.dumps\<close>, and the \<^verbatim>\<open>email\<close> parser: \<open>multipart_parts u\<close> is the list of
  (payload, filename, content subtype) of the parts when \<^verbatim>\<open>u\<close> parses as a multipart
  message, and \<open>None\<close> when parsing raises or the message is not multipart.
\<close>

record platform =
  get_data :: "string \<Rightarrow> string"
  chef_validator_watch_server_url :: pyval
  chef_validator_metadata_server_url :: pyval
  instance_connection_is_secure :: pyval
  instance_connection_https_validate_certificates :: pyval
  urlparse_hostname :: "pyval \<Rightarrow> pyval"
  jsonutils_dumps :: "pyval \<Rightarrow> string"
  multipart_parts :: "pyval \<Rightarrow> (pyval \<times> string option \<times> string) list option"

definition read_cloudinit_file :: "platform \<Rightarrow> string \<Rightarrow> string" where
  "read_cloudinit_file pf fn = get_data pf (''cloudinit/'' @ fn)"

text \<open>
  A part of the message: \<^verbatim>\<open>MIMEText(content, _subtype=subtype)\<close> with the header
  \<^verbatim>\<open>Content-Disposition: attachment; filename=...\<close>. The function's result is the
  user data itself for \<^verbatim>\<open>RAW\<close> and otherwise the multipart message, kept as the ordered
  list of its parts (its rendering by \<^verbatim>\<open>as_string\<close> belongs to the \<^verbatim>\<open>email\<close> library).
\<close>

record subpart =
  content :: pyval
  subtype :: string
  filename :: "string option"

datatype userdata_blob = Raw pyval | Multipart "subpart list"

definition make_subpart :: "pyval \<times> string option \<times> string option \<Rightarrow> error + subpart" where
  "make_subpart att =
     (case att of (cont, fname, styp) \<Rightarrow>
        (case styp of
           Some st \<Rightarrow> Inr \<lparr>content = cont, subtype = st, filename = fname\<rparr>
         | None \<Rightarrow>
             (case fname of
                Some fn \<Rightarrow> Inr \<lparr>content = cont, subtype = splitext_root fn, filename = fname\<rparr>
              | None \<Rightarrow> Inl (AttributeError ''rfind''))))"

text \<open>The list comprehension over the attachments: the first failure ends it.\<close>

fun make_subparts :: "(pyval \<times> string option \<times> string option) list \<Rightarrow> error + subpart list" where
  "make_subparts [] = Inr []"
| "make_subparts (a # as) =
     (case make_subpart a of
        Inl e \<Rightarrow> Inl e
      | Inr p \<Rightarrow> (case make_subparts as of Inl e \<Rightarrow> Inl e | Inr ps \<Rightarrow> Inr (p # ps)))"

text \<open>The two stanzas that create the instance user (the second is a raw string).\<close>

definition config_custom_user :: "string option \<Rightarrow> string" where
  "config_custom_user instance_user =
     (case instance_user of
        Some u \<Rightarrow> if u \<noteq> [] then ''user: '' @ u else []
      | None \<Rightarrow> [])"

definition boothook_custom_user :: "string option \<Rightarrow> string" where
  "boothook_custom_user instance_user =
     (case instance_user of
        Some u \<Rightarrow>
          if u \<noteq> [] then
            ''useradd -m '' @ u @ [CHR 0x0A] @
            ''echo -e '' @ [CHR 0x27] @ u @ [CHR 0x5C] @ ''tALL=(ALL)'' @ [CHR 0x5C] @
            ''tNOPASSWD: ALL'' @ [CHR 0x27] @ '' >> /etc/sudoers'' @ [CHR 0x0A]
          else []
      | None \<Rightarrow> [])"

definition boto_cfg :: "platform \<Rightarrow> string" where
  "boto_cfg pf =
     join [CHR 0x0A]
       [''[Boto]'',
        ''debug = 0'',
        ''is_secure = '' @ py_str (instance_connection_is_secure pf),
        ''https_validate_certificates = '' @
          py_str (instance_connection_https_validate_certificates pf),
        ''cfn_region_name = chef_validator'',
        ''cfn_region_endpoint = '' @
          py_str (urlparse_hostname pf (chef_validator_metadata_server_url pf)),
        ''cloudwatch_region_name = chef_validator'',
        ''cloudwatch_region_endpoint = '' @
          py_str (urlparse_hostname pf (chef_validator_watch_server_url pf))]"

text \<open>The attachment list of \<^verbatim>\<open>build_userdata\<close>, appended to in the order of the source.\<close>

definition attachments ::
  "platform \<Rightarrow> pyval \<Rightarrow> pyval \<Rightarrow> string option \<Rightarrow> string \<Rightarrow>
   (pyval \<times> string option \<times> string option) list" where
  "attachments pf md userdata instance_user user_data_format =
     (let is_cfntools = (user_data_format = ''chef_validator_CFNTOOLS'');
          is_software_config = (user_data_format = ''SOFTWARE_CONFIG'');
          cloudinit_config =
            safe_substitute [(''add_custom_user'', config_custom_user instance_user)]
              (read_cloudinit_file pf ''config'');
          cloudinit_boothook =
            safe_substitute [(''add_custom_user'', boothook_custom_user instance_user)]
              (read_cloudinit_file pf ''boothook.sh'')
      in
        [(PStr cloudinit_config, Some ''cloud-config'', None),
         (PStr cloudinit_boothook, Some ''boothook.sh'', Some ''cloud-boothook''),
         (PStr (read_cloudinit_file pf ''part_handler.py''), Some ''part-handler.py'', None)]
        @ (if is_cfntools then [(userdata, Some ''cfn-userdata'', Some ''x-cfninitdata'')]
           else if is_software_config then
             (case multipart_parts pf userdata of
                Some parts \<Rightarrow> map (\<lambda>(payload, fname, styp). (payload, fname, Some styp)) parts
              | None \<Rightarrow> [(userdata, Some ''userdata'', Some ''x-shellscript'')])
           else [])
        @ (if is_cfntools then
             [(PStr (read_cloudinit_file pf ''loguserdata.py''), Some ''loguserdata.py'',
               Some ''x-shellscript'')]
           else [])
        @ (if truthy md then
             [(PStr (jsonutils_dumps pf md), Some ''cfn-init-data'', Some ''x-cfninitdata'')]
           else [])
        @ [(chef_validator_watch_server_url pf, Some ''cfn-watch-server'',
            Some ''x-cfninitdata'')]
        @ (if is_cfntools then
             [(chef_validator_metadata_server_url pf, Some ''cfn-metadata-server'',
               Some ''x-cfninitdata''),
              (PStr (boto_cfg pf), Some ''cfn-boto-cfg'', Some ''x-cfninitdata'')]
           else []))"

definition build_userdata ::
  "platform \<Rightarrow> pyval \<Rightarrow> pyval \<Rightarrow> string option \<Rightarrow> string \<Rightarrow> error + userdata_blob" where
  "build_userdata pf md userdata instance_user user_data_format =
     (if user_data_format = ''RAW'' then Inr (Raw userdata)
      else
        (case make_subparts (attachments pf md userdata instance_user user_data_format) of
           Inl e \<Rightarrow> Inl e
         | Inr subparts \<Rightarrow> Inr (Multipart subparts)))"

section \<open>Authentication gateway\<close>

text \<open>
  \<^verbatim>\<open>auth_password.py\<close>. The WSGI environment is a dictionary from strings to values;
  \<^verbatim>\<open>env.get(k)\<close> is \<^verbatim>\<open>None\<close> for a missing key.
\<close>

type_synonym environ = "string \<Rightarrow> pyval option"

definition env_get :: "environ \<Rightarrow> string \<Rightarrow> pyval" where
  "env_get env k = (case env k of None \<Rightarrow> PNone | Some v \<Rightarrow> v)"

text \<open>\<^verbatim>\<open>d.get(key)\<close>, \<^verbatim>\<open>d[k1][k2]\<close>, \<^verbatim>\<open>d[k1][k2][k3]\<close> and iteration.\<close>

definition py_get :: "pyval \<Rightarrow> string \<Rightarrow> error + pyval" where
  "py_get d key =
     (case d of
        PDict kvs \<Rightarrow> Inr (case map_of kvs key of Some v \<Rightarrow> v | None \<Rightarrow> PNone)
      | _ \<Rightarrow> Inl (AttributeError ''get''))"

definition py_getitem2 :: "pyval \<Rightarrow> string \<Rightarrow> string \<Rightarrow> error + pyval" where
  "py_getitem2 d k1 k2 = and_then (py_getitem d k1) (\<lambda>x. py_getitem x k2)"

definition py_getitem3 :: "pyval \<Rightarrow> string \<Rightarrow> string \<Rightarrow> string \<Rightarrow> error + pyval" where
  "py_getitem3 d k1 k2 k3 = and_then (py_getitem2 d k1 k2) (\<lambda>x. py_getitem x k3)"

definition py_iter :: "pyval \<Rightarrow> error + pyval list" where
  "py_iter v =
     (case v of
        PList xs \<Rightarrow> Inr xs
      | PDict kvs \<Rightarrow> Inr (map (\<lambda>(k, _). PStr k) kvs)
      | PStr s \<Rightarrow> Inr (map (\<lambda>c. PStr [c]) s)
      | _ \<Rightarrow> Inl (TypeError ''iter''))"

text \<open>\<^verbatim>\<open>','.join([role['name'] for role in roles])\<close>: every name must be a string.\<close>

fun role_names :: "pyval list \<Rightarrow> error + pyval list" where
  "role_names [] = Inr []"
| "role_names (role # rs) =
     and_then (py_getitem role ''name'') (\<lambda>n.
     and_then (role_names rs) (\<lambda>ns. Inr (n # ns)))"

definition py_join :: "string \<Rightarrow> pyval list \<Rightarrow> error + pyval" where
  "py_join sep xs =
     (if list_all is_string xs then Inr (PStr (join sep (map py_str xs)))
      else Inl (TypeError ''join''))"

definition joined_roles :: "pyval \<Rightarrow> error + pyval" where
  "joined_roles roles =
     and_then (py_iter roles) (\<lambda>rs. and_then (role_names rs) (py_join '',''))"

definition user_headers ::
  "pyval \<Rightarrow> pyval \<Rightarrow> pyval \<Rightarrow> pyval \<Rightarrow> pyval \<Rightarrow> pyval \<Rightarrow> pyval \<Rightarrow> pyval \<Rightarrow>
   (string \<times> pyval) list" where
  "user_headers keystone_token_info tenant_id tenant_name user_id user_name roles
                service_catalog auth_token =
     [(''keystone.token_info'', keystone_token_info),
      (''HTTP_X_IDENTITY_STATUS'', PStr ''Confirmed''),
      (''HTTP_X_PROJECT_ID'', tenant_id),
      (''HTTP_X_PROJECT_NAME'', tenant_name),
      (''HTTP_X_USER_ID'', user_id),
      (''HTTP_X_USER_NAME'', user_name),
      (''HTTP_X_ROLES'', roles),
      (''HTTP_X_SERVICE_CATALOG'', service_catalog),
      (''HTTP_X_AUTH_TOKEN'', auth_token)]"

definition build_user_headers :: "pyval \<Rightarrow> error + (string \<times> pyval) list" where
  "build_user_headers token_info =
     and_then (py_get token_info ''version'') (\<lambda>version.
       if version = PStr ''v3'' then
         and_then (py_getitem2 token_info ''project'' ''id'') (\<lambda>tenant_id.
         and_then (py_getitem2 token_info ''project'' ''name'') (\<lambda>tenant_name.
         and_then (py_getitem2 token_info ''user'' ''id'') (\<lambda>user_id.
         and_then (py_getitem2 token_info ''user'' ''name'') (\<lambda>user_name.
         and_then (and_then (py_getitem token_info ''roles'') joined_roles) (\<lambda>roles.
         and_then (py_getitem token_info ''auth_token'') (\<lambda>auth_token.
           Inr (user_headers (PDict [(''token'', token_info)]) tenant_id tenant_name
                  user_id user_name roles PNone auth_token)))))))
       else
         and_then (py_getitem3 token_info ''token'' ''tenant'' ''id'') (\<lambda>tenant_id.
         and_then (py_getitem3 token_info ''token'' ''tenant'' ''name'') (\<lambda>tenant_name.
         and_then (py_getitem2 token_info ''user'' ''id'') (\<lambda>user_id.
         and_then (py_getitem2 token_info ''user'' ''name'') (\<lambda>user_name.
         and_then (and_then (py_getitem2 token_info ''user'' ''roles'') joined_roles) (\<lambda>roles.
         and_then (py_getitem token_info ''serviceCatalog'') (\<lambda>service_catalog.
         and_then (py_getitem2 token_info ''token'' ''id'') (\<lambda>auth_token.
           Inr (user_headers token_info tenant_id tenant_name user_id user_name roles
                  service_catalog auth_token)))))))))"

text \<open>
  \<^verbatim>\<open>_reject_request\<close>: the response \<^verbatim>\<open>webob.exc.HTTPUnauthorized\<close> builds, as its status
  code, its detail and the headers given to it.
\<close>

record response =
  http_code :: nat
  detail :: string
  headers :: "(string \<times> string) list"

definition reject_request :: "pyval \<Rightarrow> response" where
  "reject_request auth_url =
     \<lparr>http_code = 401,
      detail = ''Authentication required'',
      headers = [(''WWW-Authenticate'',
                  ''Keystone uri='' @ [CHR 0x27] @ py_str auth_url @ [CHR 0x27])]\<rparr>"

text \<open>
  \<^verbatim>\<open>__call__\<close>. Building the \<^verbatim>\<open>RequestContext\<close> (a module that is not among the
  sources) and asking its plugin for access is the one contact with the auth service:
  the parameter \<open>get_access\<close>, applied to user name, password, tenant and auth URL. The
  result is the list of such contacts made together with what the gateway did: answered
  itself, passed the updated environment on to the application, or let an exception
  through.
\<close>

datatype outcome = Respond response | Forward environ | Raise error

definition is_auth_failure :: "error \<Rightarrow> bool" where
  "is_auth_failure e =
     (e = Keystone KsUnauthorized \<or> e = Keystone KsForbidden \<or>
      e = Keystone KsNotFound \<or> e = Keystone KsAuthorizationFailure)"

definition call ::
  "(pyval \<Rightarrow> pyval \<Rightarrow> pyval \<Rightarrow> pyval \<Rightarrow> error + pyval) \<Rightarrow> environ \<Rightarrow>
   (pyval \<times> pyval \<times> pyval \<times> pyval) list \<times> outcome" where
  "call get_access env =
     (let username = env_get env ''HTTP_X_AUTH_USER'';
          password = env_get env ''HTTP_X_AUTH_KEY'';
          tenant = username;
          auth_url = env_get env ''HTTP_X_AUTH_URL''
      in if \<not> truthy tenant then ([], Respond (reject_request auth_url))
         else
           (case get_access username password tenant auth_url of
              Inl e \<Rightarrow>
                ([(username, password, tenant, auth_url)],
                 if is_auth_failure e then Respond (reject_request auth_url) else Raise e)
            | Inr auth_ref \<Rightarrow>
                ([(username, password, tenant, auth_url)],
                 case build_user_headers auth_ref of
                   Inl e \<Rightarrow> Raise e
                 | Inr hdrs \<Rightarrow> Forward (env ++ map_of hdrs))))"

section \<open>Example inputs\<close>

text \<open>
  A provider whose reads all have the outcome \<open>r\<close> and whose metadata calls succeed, a
  server the provider reports in error, and three exceptions as \<^verbatim>\<open>novaclient\<close> builds
  them from a response: \<^verbatim>\<open>ClientException\<close> for status 503 (no \<^verbatim>\<open>http_status\<close>),
  \<^verbatim>\<open>NotFound\<close> for 404 and \<^verbatim>\<open>OverLimit\<close> for 413.
\<close>

definition answering :: "error + server \<Rightarrow> nova" where
  "answering r =
     \<lparr>servers_get = (\<lambda>_. r), server_get = (\<lambda>_. r),
      delete_meta = (\<lambda>_ _. None), set_meta = (\<lambda>_ _. None)\<rparr>"

definition error_server :: server where
  "error_server =
     \<lparr>name = ''web-1'', status = ''ERROR'', task_state = None,
      fault = Some [(''message'', PStr ''No valid host was found''), (''code'', PInt 500)],
      metadata = []\<rparr>"


definition over_limit_413 :: nova_exc where
  "over_limit_413 =
     \<lparr>exc_class = OverLimit, http_status = Some (PInt 413), code = Some (PInt 413),
      message = ''Over limit''\<rparr>"


definition active_server :: server where
  "active_server =
     \<lparr>name = ''web-1'', status = ''ACTIVE'', task_state = None, fault = None, metadata = []\<rparr>"

text \<open>The server of the spec's reconciliation example, with metadata \<^verbatim>\<open>{a: 1, b: 2}\<close>.\<close>

definition tagged_server :: server where
  "tagged_server =
     \<lparr>name = ''web-1'', status = ''ACTIVE'', task_state = None, fault = None,
      metadata = [(''a'', PStr ''1''), (''b'', PStr ''2'')]\<rparr>"

text \<open>
  A server whose RDP console is reported unavailable and whose SPICE and serial consoles
  fail with another bad request.
\<close>

definition rdp_unavailable :: nova_exc where
  "rdp_unavailable =
     \<lparr>exc_class = BadRequest, http_status = Some (PInt 400), code = Some (PInt 400),
      message = ''Unavailable console type rdp-html5.''\<rparr>"

definition invalid_request :: nova_exc where
  "invalid_request =
     \<lparr>exc_class = BadRequest, http_status = Some (PInt 400), code = Some (PInt 400),
      message = ''Instance is not ready''\<rparr>"

definition vnc_only_server :: console_server where
  "vnc_only_server =
     \<lparr>get_vnc_console =
        (\<lambda>t. Inr (PDict [(''console'', PDict [(''type'', PStr t),
                                               (''url'', PStr ''http://vnc/?token=1'')])])),
      get_spice_console = (\<lambda>_. Inl (Nova invalid_request)),
      get_rdp_console = (\<lambda>_. Inl (Nova rdp_unavailable)),
      get_serial_console = (\<lambda>_. Inl (Nova invalid_request))\<rparr>"

text \<open>
  Requests to the gateway without and with a user name, auth services that grant a given
  token or refuse with a given error, and a token of each shape (the v3 one also carries
  a catalog, under both names a catalog goes by).
\<close>

definition anonymous_env :: environ where
  "anonymous_env =
     map_of [(''HTTP_X_AUTH_KEY'', PStr ''secret''),
             (''HTTP_X_AUTH_URL'', PStr ''http://keystone:5000/v3'')]"

definition granting :: "pyval \<Rightarrow> pyval \<Rightarrow> pyval \<Rightarrow> pyval \<Rightarrow> pyval \<Rightarrow> error + pyval" where
  "granting token username password tenant auth_url = Inr token"

definition refusing :: "error \<Rightarrow> pyval \<Rightarrow> pyval \<Rightarrow> pyval \<Rightarrow> pyval \<Rightarrow> error + pyval" where
  "refusing e username password tenant auth_url = Inl e"

definition v3_token :: pyval where
  "v3_token =
     PDict [(''version'', PStr ''v3''),
            (''auth_token'', PStr ''tok-3''),
            (''project'', PDict [(''id'', PStr ''p-1''), (''name'', PStr ''demo'')]),
            (''user'', PDict [(''id'', PStr ''u-1''), (''name'', PStr ''alice'')]),
            (''roles'', PList [PDict [(''name'', PStr ''admin'')],
                               PDict [(''name'', PStr ''member'')]]),
            (''catalog'', PList [PDict [(''type'', PStr ''compute'')]]),
            (''serviceCatalog'', PList [PDict [(''type'', PStr ''compute'')]])]"

definition v2_token :: pyval where
  "v2_token =
     PDict [(''version'', PStr ''v2.0''),
            (''token'', PDict [(''id'', PStr ''tok-2''),
                               (''tenant'', PDict [(''id'', PStr ''p-1''),
                                                   (''name'', PStr ''demo'')])]),
            (''user'', PDict [(''id'', PStr ''u-1''), (''name'', PStr ''alice''),
                              (''roles'', PList [PDict [(''name'', PStr ''admin'')],
                                                 PDict [(''name'', PStr ''member'')]])]),
            (''serviceCatalog'', PList [PDict [(''type'', PStr ''compute'')]])]"

definition alice_env :: environ where
  "alice_env =
     map_of [(''HTTP_X_AUTH_USER'', PStr ''alice''),
             (''HTTP_X_AUTH_KEY'', PStr ''secret''),
             (''HTTP_X_AUTH_URL'', PStr ''http://keystone:5000/v3'')]"

text \<open>
  A platform whose two templates have the placeholder \<^verbatim>\<open>${add_custom_user}\<close>, as the
  files this module was written against have.
\<close>

definition example_platform :: platform where
  "example_platform =
     \<lparr>get_data =
        (\<lambda>fn. case map_of
                 [(''cloudinit/config'', ''${add_custom_user}'' @ [CHR 0x0A] @ ''output: all''),
                  (''cloudinit/boothook.sh'',
                   ''#!/bin/bash'' @ [CHR 0x0A] @ ''${add_custom_user}'' @ [CHR 0x0A] @ ''exit 0''),
                  (''cloudinit/part_handler.py'', ''#part-handler''),
                  (''cloudinit/loguserdata.py'', ''#!/usr/bin/env python'')] fn of
               Some c \<Rightarrow> c | None \<Rightarrow> []),
      chef_validator_watch_server_url = PStr ''http://watch:8003'',
      chef_validator_metadata_server_url = PStr ''http://meta:8000'',
      instance_connection_is_secure = PStr ''0'',
      instance_connection_https_validate_certificates = PStr ''1'',
      urlparse_hostname = (\<lambda>u. if u = PStr ''http://watch:8003'' then PStr ''watch''
                                else if u = PStr ''http://meta:8000'' then PStr ''meta''
                                else PNone),
      jsonutils_dumps = py_repr,
      multipart_parts = (\<lambda>_. None)\<rparr>"

section \<open>Transient errors of the fetch\<close>



section \<open>Status normalisation\<close>

lemma split_not_Nil: "split sep s \<noteq> []"
  by (induction s) (auto split: list.splits)

lemma hd_split: "hd (split sep s) = takeWhile (\<lambda>c. c \<noteq> sep) s"
  by (induction s) (auto split: list.splits simp: split_not_Nil)

lemma get_status_takeWhile:
  "get_status srv = takeWhile (\<lambda>c. c \<noteq> CHR ''('') (status srv)"
  by (simp add: get_status_def hd_split)

section \<open>Completion checks\<close>

text \<open>
  What the classification at the end of \<^verbatim>\<open>_check_active\<close> returns or raises, status by
  status: the deferred statuses and \<^verbatim>\<open>ACTIVE\<close> return; \<^verbatim>\<open>ERROR\<close> and every other status
  end in the failed attribute lookup on \<^verbatim>\<open>resource\<close>.
\<close>

lemma check_active_status_known:
  "(st \<in> set deferred_server_statuses \<longrightarrow> check_active_status srv st res = Inr False) \<and>
   check_active_status srv ''ACTIVE'' res = Inr True \<and>
   check_active_status srv ''ERROR'' res = Inl (AttributeError ''ResourceInError'') \<and>
   (st \<notin> set deferred_server_statuses \<and> st \<noteq> ''ACTIVE'' \<and> st \<noteq> ''ERROR'' \<longrightarrow>
      check_active_status srv st res = Inl (AttributeError ''ResourceUnknownStatus''))"
  by (simp add: check_active_status_def deferred_server_statuses_def
        resource_ResourceInError_def resource_ResourceUnknownStatus_def resource_def)

text \<open>
  C1 at a server in \<^verbatim>\<open>ERROR\<close> with a fault message and code: \<^verbatim>\<open>_check_active\<close> raises
  \<^verbatim>\<open>AttributeError\<close> from \<^verbatim>\<open>resource.ResourceInError\<close>, not the error-state condition
  with the fault's message and code.
\<close>

theorem check_active_error_status:
  "check_active (answering (Inr error_server)) (ServerId ''srv-1'') ''Server'' =
     Inl (AttributeError ''ResourceInError'')"
  by (simp add: check_active_def fetch_server_def answering_def error_server_def get_status_def
        check_active_status_def deferred_server_statuses_def resource_ResourceInError_def
        resource_def)

text \<open>\<^verbatim>\<open>check_delete_server_complete\<close>, outcome by outcome of the fetch.\<close>

lemma check_delete_server_complete_cases:
  "check_delete_server_complete nv server_id =
     (case fetch_server nv server_id of
        Inl e \<Rightarrow> if is_not_found e then Inr True else Inl e
      | Inr None \<Rightarrow> Inr False
      | Inr (Some srv) \<Rightarrow>
          if task_state srv = Some (PStr ''deleting'') then Inr False
          else if get_status srv = ''DELETED'' \<or> get_status srv = ''SOFT_DELETED'' then Inr True
          else if get_status srv = ''ERROR'' then Inl (AttributeError ''ResourceInError'')
          else Inr False)"
  by (simp add: check_delete_server_complete_def ignore_not_found_def Let_def
        resource_ResourceInError_def resource_def split: sum.splits option.splits)

text \<open>
  C2 at the same server: \<^verbatim>\<open>check_delete_server_complete\<close> raises \<^verbatim>\<open>AttributeError\<close>
  from \<^verbatim>\<open>resource.ResourceInError\<close>, not the delete-failed condition with the fault
  detail.
\<close>

theorem check_delete_error_status:
  "check_delete_server_complete (answering (Inr error_server)) ''srv-1'' =
     Inl (AttributeError ''ResourceInError'')"
  by (simp add: check_delete_server_complete_def fetch_server_def answering_def
        error_server_def get_status_def resource_ResourceInError_def resource_def)

section \<open>Status normalisation in the completion checks\<close>

lemma fetch_server_found:
  "servers_get nv server_id = Inr srv \<Longrightarrow> fetch_server nv server_id = Inr (Some srv)"
  by (simp add: fetch_server_def)

lemma check_active_status_explicit:
  "check_active_status srv st res =
     (if st \<in> set deferred_server_statuses then Inr False
      else if st = ''ACTIVE'' then Inr True
      else if st = ''ERROR'' then Inl (AttributeError ''ResourceInError'')
      else Inl (AttributeError ''ResourceUnknownStatus''))"
  by (simp add: check_active_status_def resource_ResourceInError_def
        resource_ResourceUnknownStatus_def resource_def)

text \<open>
  C6: \<^verbatim>\<open>get_status\<close> is the status cut at the first \<^verbatim>\<open>(\<close>, so a status \<open>p(r\<close> reads as
  its prefix \<open>p\<close>, and every classification of both checks is a function of that cut
  status alone: in \<^verbatim>\<open>_check_active\<close> for the snapshot fetched by id, for a server object
  that reads \<^verbatim>\<open>ACTIVE\<close>, for the snapshot a refresh yields and for the object a tolerated
  refresh error leaves as it was; in \<^verbatim>\<open>check_delete_server_complete\<close> for the fetched
  snapshot, after the task-state test.
\<close>

theorem status_suffix_ignored:
  "(let norm = (\<lambda>s. takeWhile (\<lambda>c. c \<noteq> CHR ''('') (status s));
        active = (\<lambda>n. if n \<in> set deferred_server_statuses then Inr False
                        else if n = ''ACTIVE'' then Inr True
                        else if n = ''ERROR'' then Inl (AttributeError ''ResourceInError'')
                        else Inl (AttributeError ''ResourceUnknownStatus''));
        deleted = (\<lambda>n. if n = ''DELETED'' \<or> n = ''SOFT_DELETED'' then Inr True
                         else if n = ''ERROR'' then Inl (AttributeError ''ResourceInError'')
                         else Inr False)
    in get_status s0 = norm s0 \<and>
       (CHR ''('' \<notin> set p \<longrightarrow>
          norm (s0\<lparr>status := p @ CHR ''('' # r\<rparr>) = p \<and> norm (s0\<lparr>status := p\<rparr>) = p) \<and>
       (servers_get nv server_id = Inr srv \<longrightarrow>
          check_active nv (ServerId server_id) res_name = active (norm srv)) \<and>
       (norm obj = ''ACTIVE'' \<longrightarrow> check_active nv (ServerObj obj) res_name = Inr True) \<and>
       (norm obj \<noteq> ''ACTIVE'' \<and> server_get nv obj = Inr srv \<longrightarrow>
          check_active nv (ServerObj obj) res_name = active (norm srv)) \<and>
       (norm obj \<noteq> ''ACTIVE'' \<and> server_get nv obj = Inl (Nova exc) \<and>
        exc_class exc = OverLimit \<longrightarrow>
          check_active nv (ServerObj obj) res_name = active (norm obj)) \<and>
       (servers_get nv server_id = Inr srv \<and> task_state srv \<noteq> Some (PStr ''deleting'') \<longrightarrow>
          check_delete_server_complete nv server_id = deleted (norm srv)) \<and>
       (servers_get nv server_id = Inr srv \<and> task_state srv = Some (PStr ''deleting'') \<longrightarrow>
          check_delete_server_complete nv server_id = Inr False))"
proof -
  have a: "CHR ''('' \<notin> set p \<Longrightarrow>
           takeWhile (\<lambda>c. c \<noteq> CHR ''('') (p @ CHR ''('' # r) = p \<and>
           takeWhile (\<lambda>c. c \<noteq> CHR ''('') p = p"
    by (induction p) auto
  have b: "servers_get nv server_id = Inr srv \<Longrightarrow>
           check_active nv (ServerId server_id) res_name =
             check_active_status srv (get_status srv) res_name"
    by (simp add: check_active_def fetch_server_found)
  have c: "get_status obj = ''ACTIVE'' \<Longrightarrow>
           check_active nv (ServerObj obj) res_name = Inr True"
    by (simp add: check_active_def check_active_status_explicit deferred_server_statuses_def)
  have d: "get_status obj \<noteq> ''ACTIVE'' \<Longrightarrow> server_get nv obj = Inr srv \<Longrightarrow>
           check_active nv (ServerObj obj) res_name =
             check_active_status srv (get_status srv) res_name"
    by (simp add: check_active_def refresh_server_def)
  have e: "get_status obj \<noteq> ''ACTIVE'' \<Longrightarrow> server_get nv obj = Inl (Nova exc) \<Longrightarrow>
           exc_class exc = OverLimit \<Longrightarrow>
           check_active nv (ServerObj obj) res_name =
             check_active_status obj (get_status obj) res_name"
    by (simp add: check_active_def refresh_server_def)
  have f: "servers_get nv server_id = Inr srv \<Longrightarrow>
           check_delete_server_complete nv server_id =
             (if task_state srv = Some (PStr ''deleting'') then Inr False
              else if get_status srv = ''DELETED'' \<or> get_status srv = ''SOFT_DELETED''
                   then Inr True
              else if get_status srv = ''ERROR'' then Inl (AttributeError ''ResourceInError'')
              else Inr False)"
    by (simp add: check_delete_server_complete_cases fetch_server_found)
  from a b c d e f show ?thesis
    by (simp add: Let_def get_status_takeWhile check_active_status_explicit)
qed

text \<open>
  C6 at the spec's example \<^verbatim>\<open>ACTIVE(foo)\<close>, fetched by id and reached by refreshing a
  \<^verbatim>\<open>BUILD\<close> object, at \<^verbatim>\<open>BUILD(spawning)\<close> kept through an over-limit refresh, and at
  \<^verbatim>\<open>DELETED(foo)\<close> in the delete check.
\<close>

theorem status_suffix_ignored_witness:
  "get_status (active_server\<lparr>status := ''ACTIVE(foo)''\<rparr>) = ''ACTIVE'' \<and>
   check_active (answering (Inr (active_server\<lparr>status := ''ACTIVE(foo)''\<rparr>)))
     (ServerId ''srv-1'') ''Server'' = Inr True \<and>
   check_active (answering (Inr (active_server\<lparr>status := ''ACTIVE(foo)''\<rparr>)))
     (ServerObj (active_server\<lparr>status := ''BUILD''\<rparr>)) ''Server'' = Inr True \<and>
   check_active (answering (Inl (Nova over_limit_413)))
     (ServerObj (active_server\<lparr>status := ''BUILD(spawning)''\<rparr>)) ''Server'' = Inr False \<and>
   check_delete_server_complete (answering (Inr (active_server\<lparr>status := ''DELETED(foo)''\<rparr>)))
     ''srv-1'' = Inr True"
proof -
  have n: "takeWhile (\<lambda>c. c \<noteq> CHR ''('') ''ACTIVE(foo)'' = ''ACTIVE''"
          "takeWhile (\<lambda>c. c \<noteq> CHR ''('') ''BUILD'' = ''BUILD''"
          "takeWhile (\<lambda>c. c \<noteq> CHR ''('') ''BUILD(spawning)'' = ''BUILD''"
          "takeWhile (\<lambda>c. c \<noteq> CHR ''('') ''DELETED(foo)'' = ''DELETED''"
    by simp_all
  note t = status_suffix_ignored [unfolded Let_def]
  have 1: "get_status (active_server\<lparr>status := ''ACTIVE(foo)''\<rparr>) = ''ACTIVE''"
    using t [where ?s0.0 = "active_server\<lparr>status := ''ACTIVE(foo)''\<rparr>"] n by simp
  have 2: "check_active (answering (Inr (active_server\<lparr>status := ''ACTIVE(foo)''\<rparr>)))
     (ServerId ''srv-1'') ''Server'' = Inr True"
    using t [where nv = "answering (Inr (active_server\<lparr>status := ''ACTIVE(foo)''\<rparr>))"
               and server_id = "''srv-1''"
               and srv = "active_server\<lparr>status := ''ACTIVE(foo)''\<rparr>"
               and res_name = "''Server''"] n
    by (simp add: answering_def deferred_server_statuses_def)
  have 3: "check_active (answering (Inr (active_server\<lparr>status := ''ACTIVE(foo)''\<rparr>)))
     (ServerObj (active_server\<lparr>status := ''BUILD''\<rparr>)) ''Server'' = Inr True"
    using t [where nv = "answering (Inr (active_server\<lparr>status := ''ACTIVE(foo)''\<rparr>))"
               and obj = "active_server\<lparr>status := ''BUILD''\<rparr>"
               and srv = "active_server\<lparr>status := ''ACTIVE(foo)''\<rparr>"
               and res_name = "''Server''"] n
    by (simp add: answering_def deferred_server_statuses_def)
  have 4: "check_active (answering (Inl (Nova over_limit_413)))
     (ServerObj (active_server\<lparr>status := ''BUILD(spawning)''\<rparr>)) ''Server'' = Inr False"
    using t [where nv = "answering (Inl (Nova over_limit_413))"
               and obj = "active_server\<lparr>status := ''BUILD(spawning)''\<rparr>"
               and exc = over_limit_413
               and res_name = "''Server''"] n
    by (simp add: answering_def deferred_server_statuses_def over_limit_413_def)
  have 5: "check_delete_server_complete
             (answering (Inr (active_server\<lparr>status := ''DELETED(foo)''\<rparr>))) ''srv-1'' = Inr True"
    using t [where nv = "answering (Inr (active_server\<lparr>status := ''DELETED(foo)''\<rparr>))"
               and server_id = "''srv-1''"
               and srv = "active_server\<lparr>status := ''DELETED(foo)''\<rparr>"] n
    by (simp add: answering_def active_server_def)
  from 1 2 3 4 5 show ?thesis by simp
qed

section \<open>Metadata\<close>

lemma meta_serialize_dict:
  "meta_serialize dumps (PDict items) =
     Inr (map (\<lambda>(key, value). (key, if is_string value then value else PStr (dumps value))) items)"
  by (simp add: meta_serialize_def)

lemma map_of_serialized:
  "map_of (map (\<lambda>(key, value). (key, if is_string value then value else PStr (dumps value)))
             items) k =
     map_option (\<lambda>value. if is_string value then value else PStr (dumps value)) (map_of items k)"
  by (induction items) auto

text \<open>
  C7: \<^verbatim>\<open>meta_serialize\<close> of anything but a mapping raises the validation failure; of a
  mapping it returns a mapping with the same keys in which every value is a string: the
  value itself when that is a string, its \<^verbatim>\<open>dumps\<close> encoding otherwise.
\<close>

theorem meta_serialize_result:
  "(case md of
      PDict items \<Rightarrow>
        (\<exists>r. meta_serialize dumps md = Inr r \<and>
           map fst r = map fst items \<and>
           list_all (\<lambda>(k, v). is_string v) r \<and>
           (\<forall>k. map_of r k =
              map_option (\<lambda>v. if is_string v then v else PStr (dumps v)) (map_of items k)))
    | _ \<Rightarrow> meta_serialize dumps md =
             Inl (StackValidationFailed ''nova server metadata needs to be a Map.''))"
proof (cases md)
  case (PDict items)
  have "map fst (map (\<lambda>(key, value).
                        (key, if is_string value then value else PStr (dumps value))) items)
        = map fst items"
    by (induction items) auto
  moreover have "list_all (\<lambda>(k, v). is_string v)
        (map (\<lambda>(key, value). (key, if is_string value then value else PStr (dumps value))) items)"
    by (induction items) auto
  ultimately show ?thesis
    using PDict by (simp add: meta_serialize_dict map_of_serialized)
qed (simp_all add: meta_serialize_def)

text \<open>
  C7 at the spec's example, a list value beside a string value, and at a list in place of
  the mapping (with Python's \<^verbatim>\<open>repr\<close> standing in for the encoder).
\<close>

theorem meta_serialize_result_witness:
  "meta_serialize py_repr (PDict [(''k'', PList [PInt 1, PInt 2]), (''s'', PStr ''v'')]) =
     Inr [(''k'', PStr ''[1, 2]''), (''s'', PStr ''v'')] \<and>
   meta_serialize py_repr (PList [PInt 1]) =
     Inl (StackValidationFailed ''nova server metadata needs to be a Map.'')"
  using meta_serialize_result
          [where md = "PDict [(''k'', PList [PInt 1, PInt 2]), (''s'', PStr ''v'')]"
             and dumps = py_repr]
        meta_serialize_result [where md = "PList [PInt 1]" and dumps = py_repr]
  by (simp add: meta_serialize_def str_of_int_def)

lemma set_to_del:
  "set (to_del srv md) = fst ` set (metadata srv) - fst ` set md"
  by (auto simp: to_del_def)

text \<open>
  C4: for a desired mapping with serialization \<open>md\<close>, the keys to delete are the keys of
  the server's metadata that are not keys of \<open>md\<close>; a delete call is made only with
  these keys, only when there are any, and then as the first call; a set call carries
  \<open>md\<close> whole and is the last call; and the set call is made in every run except the
  one the delete call itself ends by raising.
\<close>

theorem meta_update_calls:
  assumes "meta_serialize dumps (PDict desired) = Inr md"
    and "meta_update nv dumps srv (PDict desired) = (calls, raised)"
  shows "set (to_del srv md) = fst ` set (metadata srv) - fst ` set md \<and>
         (\<forall>ks. DeleteMeta ks \<in> set calls \<longrightarrow>
            ks = to_del srv md \<and> ks \<noteq> [] \<and> hd calls = DeleteMeta ks) \<and>
         (to_del srv md \<noteq> [] \<longrightarrow> hd calls = DeleteMeta (to_del srv md)) \<and>
         (\<forall>m. SetMeta m \<in> set calls \<longrightarrow> m = md \<and> last calls = SetMeta md) \<and>
         (to_del srv md = [] \<or> delete_meta nv srv (to_del srv md) = None \<longrightarrow>
            last calls = SetMeta md \<and> raised = set_meta nv srv md) \<and>
         (\<forall>e. to_del srv md \<noteq> [] \<and> delete_meta nv srv (to_del srv md) = Some e \<longrightarrow>
            calls = [DeleteMeta (to_del srv md)] \<and> raised = Some e)"
  using assms by (auto simp: meta_update_def set_to_del split: option.splits if_splits)

text \<open>C4 at the spec's example: current \<^verbatim>\<open>{a: 1, b: 2}\<close>, desired \<^verbatim>\<open>{b: 2, c: 3}\<close>.\<close>

theorem meta_update_calls_witness:
  "to_del tagged_server [(''b'', PStr ''2''), (''c'', PStr ''3'')] = [''a''] \<and>
   meta_update (answering (Inr tagged_server)) py_repr tagged_server
     (PDict [(''b'', PInt 2), (''c'', PInt 3)]) =
   ([DeleteMeta [''a''], SetMeta [(''b'', PStr ''2''), (''c'', PStr ''3'')]], None)"
proof -
  have h: "meta_serialize py_repr (PDict [(''b'', PInt 2), (''c'', PInt 3)]) =
           Inr [(''b'', PStr ''2''), (''c'', PStr ''3'')]"
    by (simp add: meta_serialize_def str_of_int_def)
  have d: "to_del tagged_server [(''b'', PStr ''2''), (''c'', PStr ''3'')] = [''a'']"
    by (simp add: to_del_def tagged_server_def)
  have u: "meta_update (answering (Inr tagged_server)) py_repr tagged_server
             (PDict [(''b'', PInt 2), (''c'', PInt 3)]) =
           ([DeleteMeta [''a''], SetMeta [(''b'', PStr ''2''), (''c'', PStr ''3'')]], None)"
    by (simp add: meta_update_def h d answering_def)
  from meta_update_calls [OF h u] d u
  show ?thesis by simp
qed

section \<open>Console URLs\<close>

text \<open>
  C9: when the console call for a key raises a \<^verbatim>\<open>BadRequest\<close>, the lookup returns the
  error's message as the URL if the message contains \<^verbatim>\<open>Unavailable console type\<close> and
  re-raises the error otherwise; and for every server, whatever its console calls do, the
  mapping has length five and iterates over the five supported console types.
\<close>

theorem console_getitem_bad_request:
  "(map_of (console_methods srv) key = Some console_call \<and>
    console_call key = Inl (Nova e) \<and> exc_class e = BadRequest \<longrightarrow>
    console_getitem srv key =
      (if sublist ''Unavailable console type'' (message e) then Inr (PStr (message e))
       else Inl (Nova e))) \<and>
   console_len srv = 5 \<and>
   distinct (console_iter srv) \<and>
   set (console_iter srv) = {''novnc'', ''xvpvnc'', ''spice-html5'', ''rdp-html5'', ''serial''}"
proof -
  have "map_of (console_methods srv) key = Some console_call \<and>
    console_call key = Inl (Nova e) \<and> exc_class e = BadRequest \<longrightarrow>
    console_getitem srv key =
      (if sublist ''Unavailable console type'' (message e) then Inr (PStr (message e))
       else Inl (Nova e))"
    by (simp add: console_getitem_def and_then_def unavailable_def)
  moreover have "console_len srv = 5"
    by (simp add: console_len_def console_methods_def)
  moreover have "distinct (console_iter srv)"
    by (simp add: console_iter_def console_methods_def)
  moreover have "set (console_iter srv) =
      {''novnc'', ''xvpvnc'', ''spice-html5'', ''rdp-html5'', ''serial''}"
    by (simp add: console_iter_def console_methods_def)
  ultimately show ?thesis by blast
qed

lemma marker_in_rdp: "sublist ''Unavailable console type'' (message rdp_unavailable)"
  by (simp add: rdp_unavailable_def sublist_code)
lemma marker_not_in_invalid: "\<not> sublist ''Unavailable console type'' (message invalid_request)"
  by (simp add: invalid_request_def sublist_code)

text \<open>
  C9 at a server whose RDP console is unavailable and whose serial console fails with a
  different bad request.
\<close>

theorem console_getitem_bad_request_witness:
  "console_getitem vnc_only_server ''rdp-html5'' =
     Inr (PStr ''Unavailable console type rdp-html5.'') \<and>
   console_getitem vnc_only_server ''serial'' = Inl (Nova invalid_request) \<and>
   console_len vnc_only_server = 5 \<and>
   set (console_iter vnc_only_server) =
     {''novnc'', ''xvpvnc'', ''spice-html5'', ''rdp-html5'', ''serial''}"
proof -
  have m1: "map_of (console_methods vnc_only_server) ''rdp-html5'' =
              Some (get_rdp_console vnc_only_server)"
    by (simp add: console_methods_def)
  have r1: "get_rdp_console vnc_only_server ''rdp-html5'' = Inl (Nova rdp_unavailable)"
    by (simp add: vnc_only_server_def)
  have c1: "exc_class rdp_unavailable = BadRequest" by (simp add: rdp_unavailable_def)
  have m2: "map_of (console_methods vnc_only_server) ''serial'' =
              Some (get_serial_console vnc_only_server)"
    by (simp add: console_methods_def)
  have r2: "get_serial_console vnc_only_server ''serial'' = Inl (Nova invalid_request)"
    by (simp add: vnc_only_server_def)
  have c2: "exc_class invalid_request = BadRequest" by (simp add: invalid_request_def)
  have n1: "message rdp_unavailable = ''Unavailable console type rdp-html5.''"
    by (simp add: rdp_unavailable_def)
  from console_getitem_bad_request
         [where srv = vnc_only_server and key = "''rdp-html5''"
            and console_call = "get_rdp_console vnc_only_server" and e = rdp_unavailable]
       console_getitem_bad_request
         [where srv = vnc_only_server and key = "''serial''"
            and console_call = "get_serial_console vnc_only_server" and e = invalid_request]
       m1 r1 c1 m2 r2 c2 marker_in_rdp marker_not_in_invalid n1
  show ?thesis by simp
qed

section \<open>Boot payload\<close>

lemma safe_substitute_plain:
  "CHR ''$'' \<notin> set pre \<Longrightarrow> safe_substitute m (pre @ s) = pre @ safe_substitute m s"
  by (induction pre) auto

lemma takeWhile_placeholder:
  "takeWhile is_id_char (''add_custom_user'' @ CHR ''}'' # post) = ''add_custom_user''"
  by (simp add: is_id_char_def is_id_start_def)

lemma dropWhile_placeholder:
  "dropWhile is_id_char (''add_custom_user'' @ CHR ''}'' # post) = CHR ''}'' # post"
  by (simp add: is_id_char_def is_id_start_def)

lemma safe_substitute_braced:
  "safe_substitute [(''add_custom_user'', v)] (''${add_custom_user}'' @ post) =
     v @ safe_substitute [(''add_custom_user'', v)] post"
  using takeWhile_placeholder [of post] dropWhile_placeholder [of post]
  by (simp add: is_id_start_def)

lemma safe_substitute_template:
  assumes "CHR ''$'' \<notin> set pre"
  shows "safe_substitute [(''add_custom_user'', v)] (pre @ ''${add_custom_user}'' @ post) =
           pre @ v @ safe_substitute [(''add_custom_user'', v)] post"
proof -
  have "safe_substitute [(''add_custom_user'', v)] (pre @ (''${add_custom_user}'' @ post)) =
        pre @ safe_substitute [(''add_custom_user'', v)] (''${add_custom_user}'' @ post)"
    using assms by (rule safe_substitute_plain)
  also have "safe_substitute [(''add_custom_user'', v)] (''${add_custom_user}'' @ post) =
             v @ safe_substitute [(''add_custom_user'', v)] post"
    by (rule safe_substitute_braced)
  finally show ?thesis .
qed

lemma splitext_names:
  "splitext_root ''cloud-config'' = ''cloud-config''"
  "splitext_root ''part-handler.py'' = ''part-handler''"
  by (simp_all add: splitext_root_def Let_def)

lemma attachments_cfntools:
  assumes "\<not> truthy md"
  shows "attachments pf md userdata instance_user ''chef_validator_CFNTOOLS'' =
     [(PStr (safe_substitute [(''add_custom_user'', config_custom_user instance_user)]
               (read_cloudinit_file pf ''config'')), Some ''cloud-config'', None),
      (PStr (safe_substitute [(''add_custom_user'', boothook_custom_user instance_user)]
               (read_cloudinit_file pf ''boothook.sh'')), Some ''boothook.sh'',
       Some ''cloud-boothook''),
      (PStr (read_cloudinit_file pf ''part_handler.py''), Some ''part-handler.py'', None),
      (userdata, Some ''cfn-userdata'', Some ''x-cfninitdata''),
      (PStr (read_cloudinit_file pf ''loguserdata.py''), Some ''loguserdata.py'',
       Some ''x-shellscript''),
      (chef_validator_watch_server_url pf, Some ''cfn-watch-server'', Some ''x-cfninitdata''),
      (chef_validator_metadata_server_url pf, Some ''cfn-metadata-server'',
       Some ''x-cfninitdata''),
      (PStr (boto_cfg pf), Some ''cfn-boto-cfg'', Some ''x-cfninitdata'')]"
  using assms by (simp add: attachments_def Let_def)

lemma cfntools_message:
  assumes "\<not> truthy md"
  shows "build_userdata pf md userdata instance_user ''chef_validator_CFNTOOLS'' =
     Inr (Multipart
       [\<lparr>content = PStr (safe_substitute [(''add_custom_user'', config_custom_user instance_user)]
               (read_cloudinit_file pf ''config'')),
         subtype = ''cloud-config'', filename = Some ''cloud-config''\<rparr>,
        \<lparr>content = PStr (safe_substitute [(''add_custom_user'', boothook_custom_user instance_user)]
               (read_cloudinit_file pf ''boothook.sh'')),
         subtype = ''cloud-boothook'', filename = Some ''boothook.sh''\<rparr>,
        \<lparr>content = PStr (read_cloudinit_file pf ''part_handler.py''),
         subtype = ''part-handler'', filename = Some ''part-handler.py''\<rparr>,
        \<lparr>content = userdata, subtype = ''x-cfninitdata'', filename = Some ''cfn-userdata''\<rparr>,
        \<lparr>content = PStr (read_cloudinit_file pf ''loguserdata.py''),
         subtype = ''x-shellscript'', filename = Some ''loguserdata.py''\<rparr>,
        \<lparr>content = chef_validator_watch_server_url pf, subtype = ''x-cfninitdata'',
         filename = Some ''cfn-watch-server''\<rparr>,
        \<lparr>content = chef_validator_metadata_server_url pf, subtype = ''x-cfninitdata'',
         filename = Some ''cfn-metadata-server''\<rparr>,
        \<lparr>content = PStr (boto_cfg pf), subtype = ''x-cfninitdata'',
         filename = Some ''cfn-boto-cfg''\<rparr>])"
  by (simp add: build_userdata_def attachments_cfntools [OF assms] make_subpart_def
        splitext_names)

text \<open>
  C5: with the format \<^verbatim>\<open>chef_validator_CFNTOOLS\<close>, an instance user \<open>u\<close> and no
  metadata, the message has exactly eight parts, in this order: cloud-config, boothook.sh,
  part-handler.py, cfn-userdata, loguserdata.py, cfn-watch-server, cfn-metadata-server,
  cfn-boto-cfg. The first two are the rendered templates and contain the stanza that
  creates \<open>u\<close>, given that each template has the placeholder \<^verbatim>\<open>${add_custom_user}\<close> with no
  \<^verbatim>\<open>$\<close> before it (the template files are not among the sources).
\<close>

theorem build_userdata_cfntools_parts:
  assumes "u \<noteq> []" and "\<not> truthy md"
    and "read_cloudinit_file pf ''config'' = pre1 @ ''${add_custom_user}'' @ post1"
    and "CHR ''$'' \<notin> set pre1"
    and "read_cloudinit_file pf ''boothook.sh'' = pre2 @ ''${add_custom_user}'' @ post2"
    and "CHR ''$'' \<notin> set pre2"
  shows "\<exists>parts cfg hook.
           build_userdata pf md userdata (Some u) ''chef_validator_CFNTOOLS'' =
             Inr (Multipart parts) \<and>
           map filename parts =
             [Some ''cloud-config'', Some ''boothook.sh'', Some ''part-handler.py'',
              Some ''cfn-userdata'', Some ''loguserdata.py'', Some ''cfn-watch-server'',
              Some ''cfn-metadata-server'', Some ''cfn-boto-cfg''] \<and>
           map content parts =
             [PStr cfg, PStr hook, PStr (read_cloudinit_file pf ''part_handler.py''), userdata,
              PStr (read_cloudinit_file pf ''loguserdata.py''),
              chef_validator_watch_server_url pf, chef_validator_metadata_server_url pf,
              PStr (boto_cfg pf)] \<and>
           sublist (''user: '' @ u) cfg \<and>
           sublist (''useradd -m '' @ u @ [CHR 0x0A] @
                    ''echo -e '' @ [CHR 0x27] @ u @ [CHR 0x5C] @ ''tALL=(ALL)'' @ [CHR 0x5C] @
                    ''tNOPASSWD: ALL'' @ [CHR 0x27] @ '' >> /etc/sudoers'' @ [CHR 0x0A]) hook"
proof -
  let ?cu = "config_custom_user (Some u)" and ?bu = "boothook_custom_user (Some u)"
  let ?cfg = "safe_substitute [(''add_custom_user'', ?cu)] (read_cloudinit_file pf ''config'')"
  let ?hook = "safe_substitute [(''add_custom_user'', ?bu)] (read_cloudinit_file pf ''boothook.sh'')"
  have cu: "?cu = ''user: '' @ u"
    using assms(1) by (simp add: config_custom_user_def)
  have bu: "?bu = ''useradd -m '' @ u @ [CHR 0x0A] @
                    ''echo -e '' @ [CHR 0x27] @ u @ [CHR 0x5C] @ ''tALL=(ALL)'' @ [CHR 0x5C] @
                    ''tNOPASSWD: ALL'' @ [CHR 0x27] @ '' >> /etc/sudoers'' @ [CHR 0x0A]"
    using assms(1) by (simp add: boothook_custom_user_def)
  have "?cfg = pre1 @ ?cu @ safe_substitute [(''add_custom_user'', ?cu)] post1"
    unfolding assms(3) using assms(4) by (rule safe_substitute_template)
  then have c: "sublist ?cu ?cfg" by (simp only: sublist_appendI)
  have "?hook = pre2 @ ?bu @ safe_substitute [(''add_custom_user'', ?bu)] post2"
    unfolding assms(5) using assms(6) by (rule safe_substitute_template)
  then have h: "sublist ?bu ?hook" by (simp only: sublist_appendI)
  from c cu have c': "sublist (''user: '' @ u) ?cfg" by simp
  from h bu have h': "sublist (''useradd -m '' @ u @ [CHR 0x0A] @
                    ''echo -e '' @ [CHR 0x27] @ u @ [CHR 0x5C] @ ''tALL=(ALL)'' @ [CHR 0x5C] @
                    ''tNOPASSWD: ALL'' @ [CHR 0x27] @ '' >> /etc/sudoers'' @ [CHR 0x0A]) ?hook"
    by simp
  have "\<exists>parts.
           build_userdata pf md userdata (Some u) ''chef_validator_CFNTOOLS'' =
             Inr (Multipart parts) \<and>
           map filename parts =
             [Some ''cloud-config'', Some ''boothook.sh'', Some ''part-handler.py'',
              Some ''cfn-userdata'', Some ''loguserdata.py'', Some ''cfn-watch-server'',
              Some ''cfn-metadata-server'', Some ''cfn-boto-cfg''] \<and>
           map content parts =
             [PStr ?cfg, PStr ?hook, PStr (read_cloudinit_file pf ''part_handler.py''), userdata,
              PStr (read_cloudinit_file pf ''loguserdata.py''),
              chef_validator_watch_server_url pf, chef_validator_metadata_server_url pf,
              PStr (boto_cfg pf)]"
    by (simp add: cfntools_message [OF assms(2)])
  then obtain parts where
    p: "build_userdata pf md userdata (Some u) ''chef_validator_CFNTOOLS'' =
             Inr (Multipart parts) \<and>
           map filename parts =
             [Some ''cloud-config'', Some ''boothook.sh'', Some ''part-handler.py'',
              Some ''cfn-userdata'', Some ''loguserdata.py'', Some ''cfn-watch-server'',
              Some ''cfn-metadata-server'', Some ''cfn-boto-cfg''] \<and>
           map content parts =
             [PStr ?cfg, PStr ?hook, PStr (read_cloudinit_file pf ''part_handler.py''), userdata,
              PStr (read_cloudinit_file pf ''loguserdata.py''),
              chef_validator_watch_server_url pf, chef_validator_metadata_server_url pf,
              PStr (boto_cfg pf)]" ..
  from p c' h' show ?thesis
    by (intro exI [of _ parts] exI [of _ ?cfg] exI [of _ ?hook] conjI) simp_all
qed

text \<open>C5 at the spec's example, the user \<^verbatim>\<open>deploy\<close>, on the example platform.\<close>

theorem build_userdata_cfntools_parts_witness:
  "build_userdata example_platform PNone (PStr ''#!/bin/sh'') (Some ''deploy'')
     ''chef_validator_CFNTOOLS'' =
   Inr (Multipart
     [\<lparr>content = PStr (''user: deploy'' @ [CHR 0x0A] @ ''output: all''),
       subtype = ''cloud-config'', filename = Some ''cloud-config''\<rparr>,
      \<lparr>content = PStr (''#!/bin/bash'' @ [CHR 0x0A] @ ''useradd -m deploy'' @ [CHR 0x0A] @
                        ''echo -e '' @ [CHR 0x27] @ ''deploy'' @ [CHR 0x5C] @ ''tALL=(ALL)'' @
                        [CHR 0x5C] @ ''tNOPASSWD: ALL'' @ [CHR 0x27] @ '' >> /etc/sudoers'' @
                        [CHR 0x0A, CHR 0x0A] @ ''exit 0''),
       subtype = ''cloud-boothook'', filename = Some ''boothook.sh''\<rparr>,
      \<lparr>content = PStr ''#part-handler'', subtype = ''part-handler'',
       filename = Some ''part-handler.py''\<rparr>,
      \<lparr>content = PStr ''#!/bin/sh'', subtype = ''x-cfninitdata'',
       filename = Some ''cfn-userdata''\<rparr>,
      \<lparr>content = PStr ''#!/usr/bin/env python'', subtype = ''x-shellscript'',
       filename = Some ''loguserdata.py''\<rparr>,
      \<lparr>content = PStr ''http://watch:8003'', subtype = ''x-cfninitdata'',
       filename = Some ''cfn-watch-server''\<rparr>,
      \<lparr>content = PStr ''http://meta:8000'', subtype = ''x-cfninitdata'',
       filename = Some ''cfn-metadata-server''\<rparr>,
      \<lparr>content = PStr (''[Boto]'' @ [CHR 0x0A] @ ''debug = 0'' @ [CHR 0x0A] @
                        ''is_secure = 0'' @ [CHR 0x0A] @
                        ''https_validate_certificates = 1'' @ [CHR 0x0A] @
                        ''cfn_region_name = chef_validator'' @ [CHR 0x0A] @
                        ''cfn_region_endpoint = meta'' @ [CHR 0x0A] @
                        ''cloudwatch_region_name = chef_validator'' @ [CHR 0x0A] @
                        ''cloudwatch_region_endpoint = watch''),
       subtype = ''x-cfninitdata'', filename = Some ''cfn-boto-cfg''\<rparr>])"
proof -
  have h1: "''deploy'' \<noteq> []" by simp
  have h2: "\<not> truthy PNone" by simp
  have h3: "read_cloudinit_file example_platform ''config'' =
              [] @ ''${add_custom_user}'' @ ([CHR 0x0A] @ ''output: all'')"
    by (simp add: read_cloudinit_file_def example_platform_def)
  have h4: "CHR ''$'' \<notin> set []" by simp
  have h5: "read_cloudinit_file example_platform ''boothook.sh'' =
              (''#!/bin/bash'' @ [CHR 0x0A]) @ ''${add_custom_user}'' @
              ([CHR 0x0A] @ ''exit 0'')"
    by (simp add: read_cloudinit_file_def example_platform_def)
  have h6: "CHR ''$'' \<notin> set (''#!/bin/bash'' @ [CHR 0x0A])" by simp
  have direct: "build_userdata example_platform PNone (PStr ''#!/bin/sh'') (Some ''deploy'')
       ''chef_validator_CFNTOOLS'' =
     Inr (Multipart
       [\<lparr>content = PStr (''user: deploy'' @ [CHR 0x0A] @ ''output: all''),
         subtype = ''cloud-config'', filename = Some ''cloud-config''\<rparr>,
        \<lparr>content = PStr (''#!/bin/bash'' @ [CHR 0x0A] @ ''useradd -m deploy'' @ [CHR 0x0A] @
                          ''echo -e '' @ [CHR 0x27] @ ''deploy'' @ [CHR 0x5C] @ ''tALL=(ALL)'' @
                          [CHR 0x5C] @ ''tNOPASSWD: ALL'' @ [CHR 0x27] @ '' >> /etc/sudoers'' @
                          [CHR 0x0A, CHR 0x0A] @ ''exit 0''),
         subtype = ''cloud-boothook'', filename = Some ''boothook.sh''\<rparr>,
        \<lparr>content = PStr ''#part-handler'', subtype = ''part-handler'',
         filename = Some ''part-handler.py''\<rparr>,
        \<lparr>content = PStr ''#!/bin/sh'', subtype = ''x-cfninitdata'',
         filename = Some ''cfn-userdata''\<rparr>,
        \<lparr>content = PStr ''#!/usr/bin/env python'', subtype = ''x-shellscript'',
         filename = Some ''loguserdata.py''\<rparr>,
        \<lparr>content = PStr ''http://watch:8003'', subtype = ''x-cfninitdata'',
         filename = Some ''cfn-watch-server''\<rparr>,
        \<lparr>content = PStr ''http://meta:8000'', subtype = ''x-cfninitdata'',
         filename = Some ''cfn-metadata-server''\<rparr>,
        \<lparr>content = PStr (''[Boto]'' @ [CHR 0x0A] @ ''debug = 0'' @ [CHR 0x0A] @
                          ''is_secure = 0'' @ [CHR 0x0A] @
                          ''https_validate_certificates = 1'' @ [CHR 0x0A] @
                          ''cfn_region_name = chef_validator'' @ [CHR 0x0A] @
                          ''cfn_region_endpoint = meta'' @ [CHR 0x0A] @
                          ''cloudwatch_region_name = chef_validator'' @ [CHR 0x0A] @
                          ''cloudwatch_region_endpoint = watch''),
         subtype = ''x-cfninitdata'', filename = Some ''cfn-boto-cfg''\<rparr>])"
    by code_simp
  from build_userdata_cfntools_parts
         [OF h1 h2 h3 h4 h5 h6, of "PStr ''#!/bin/sh''"]
  show ?thesis by (simp only: direct)
qed

section \<open>Authentication gateway\<close>

lemma role_names_named:
  "list_all2 (\<lambda>r n. \<exists>f. r = PDict f \<and> map_of f ''name'' = Some (PStr n)) roles names \<Longrightarrow>
   role_names roles = Inr (map PStr names)"
  by (induction roles names rule: list_all2_induct)
     (auto simp: and_then_def py_getitem_def)

lemma py_join_strings: "py_join sep (map PStr names) = Inr (PStr (join sep names))"
proof -
  have "list_all is_string (map PStr names)" by (induction names) auto
  moreover have "map py_str (map PStr names) = names"
    by (induction names) (auto simp: py_str_def)
  ultimately show ?thesis by (simp add: py_join_def)
qed

lemma joined_roles_named:
  "list_all2 (\<lambda>r n. \<exists>f. r = PDict f \<and> map_of f ''name'' = Some (PStr n)) roles names \<Longrightarrow>
   joined_roles (PList roles) = Inr (PStr (join '','' names))"
  by (simp add: joined_roles_def py_iter_def and_then_def role_names_named py_join_strings)

lemma build_user_headers_v3:
  assumes "py_get t ''version'' = Inr (PStr ''v3'')"
    and "py_getitem2 t ''project'' ''id'' = Inr pid"
    and "py_getitem2 t ''project'' ''name'' = Inr pname"
    and "py_getitem2 t ''user'' ''id'' = Inr uid"
    and "py_getitem2 t ''user'' ''name'' = Inr uname"
    and "py_getitem t ''roles'' = Inr (PList roles)"
    and "list_all2 (\<lambda>r n. \<exists>f. r = PDict f \<and> map_of f ''name'' = Some (PStr n)) roles names"
    and "py_getitem t ''auth_token'' = Inr tok"
  shows "build_user_headers t =
           Inr [(''keystone.token_info'', PDict [(''token'', t)]),
                (''HTTP_X_IDENTITY_STATUS'', PStr ''Confirmed''),
                (''HTTP_X_PROJECT_ID'', pid),
                (''HTTP_X_PROJECT_NAME'', pname),
                (''HTTP_X_USER_ID'', uid),
                (''HTTP_X_USER_NAME'', uname),
                (''HTTP_X_ROLES'', PStr (join '','' names)),
                (''HTTP_X_SERVICE_CATALOG'', PNone),
                (''HTTP_X_AUTH_TOKEN'', tok)]"
  using assms(1-6,8) joined_roles_named [OF assms(7)]
  by (simp add: build_user_headers_def and_then_def user_headers_def)

lemma build_user_headers_v2:
  assumes "py_get t ''version'' = Inr v" and "v \<noteq> PStr ''v3''"
    and "py_getitem3 t ''token'' ''tenant'' ''id'' = Inr pid"
    and "py_getitem3 t ''token'' ''tenant'' ''name'' = Inr pname"
    and "py_getitem2 t ''user'' ''id'' = Inr uid"
    and "py_getitem2 t ''user'' ''name'' = Inr uname"
    and "py_getitem2 t ''user'' ''roles'' = Inr (PList roles)"
    and "list_all2 (\<lambda>r n. \<exists>f. r = PDict f \<and> map_of f ''name'' = Some (PStr n)) roles names"
    and "py_getitem t ''serviceCatalog'' = Inr catalog"
    and "py_getitem2 t ''token'' ''id'' = Inr tok"
  shows "build_user_headers t =
           Inr [(''keystone.token_info'', t),
                (''HTTP_X_IDENTITY_STATUS'', PStr ''Confirmed''),
                (''HTTP_X_PROJECT_ID'', pid),
                (''HTTP_X_PROJECT_NAME'', pname),
                (''HTTP_X_USER_ID'', uid),
                (''HTTP_X_USER_NAME'', uname),
                (''HTTP_X_ROLES'', PStr (join '','' names)),
                (''HTTP_X_SERVICE_CATALOG'', catalog),
                (''HTTP_X_AUTH_TOKEN'', tok)]"
  using assms(1-7,9,10) joined_roles_named [OF assms(8)]
  by (simp add: build_user_headers_def and_then_def user_headers_def)

lemma call_forwards:
  assumes "truthy (env_get env ''HTTP_X_AUTH_USER'')"
    and "get_access (env_get env ''HTTP_X_AUTH_USER'') (env_get env ''HTTP_X_AUTH_KEY'')
           (env_get env ''HTTP_X_AUTH_USER'') (env_get env ''HTTP_X_AUTH_URL'') = Inr t"
    and "build_user_headers t = Inr hdrs"
  shows "snd (call get_access env) = Forward (env ++ map_of hdrs)"
  using assms by (simp add: call_def Let_def)

lemma call_rejects:
  assumes "truthy (env_get env ''HTTP_X_AUTH_USER'')"
    and "get_access (env_get env ''HTTP_X_AUTH_USER'') (env_get env ''HTTP_X_AUTH_KEY'')
           (env_get env ''HTTP_X_AUTH_USER'') (env_get env ''HTTP_X_AUTH_URL'') = Inl e"
    and "is_auth_failure e"
  shows "snd (call get_access env) =
           Respond \<lparr>http_code = 401, detail = ''Authentication required'',
                    headers = [(''WWW-Authenticate'',
                                ''Keystone uri='' @ [CHR 0x27] @
                                py_str (env_get env ''HTTP_X_AUTH_URL'') @ [CHR 0x27])]\<rparr>"
  using assms by (simp add: call_def Let_def reject_request_def)

text \<open>
  C8, as stated, at a v3 token that carries a service catalog: the header
  \<^verbatim>\<open>HTTP_X_SERVICE_CATALOG\<close> the gateway injects is \<^verbatim>\<open>None\<close>; the v3 branch reads no
  catalog from the token.
\<close>

theorem v3_service_catalog_counterexample:
  "py_getitem v3_token ''catalog'' = Inr (PList [PDict [(''type'', PStr ''compute'')]]) \<and>
   py_getitem v3_token ''serviceCatalog'' = Inr (PList [PDict [(''type'', PStr ''compute'')]]) \<and>
   build_user_headers v3_token =
     Inr [(''keystone.token_info'', PDict [(''token'', v3_token)]),
          (''HTTP_X_IDENTITY_STATUS'', PStr ''Confirmed''),
          (''HTTP_X_PROJECT_ID'', PStr ''p-1''),
          (''HTTP_X_PROJECT_NAME'', PStr ''demo''),
          (''HTTP_X_USER_ID'', PStr ''u-1''),
          (''HTTP_X_USER_NAME'', PStr ''alice''),
          (''HTTP_X_ROLES'', PStr ''admin,member''),
          (''HTTP_X_SERVICE_CATALOG'', PNone),
          (''HTTP_X_AUTH_TOKEN'', PStr ''tok-3'')]"
  by (simp add: v3_token_def build_user_headers_def py_get_def py_getitem_def py_getitem2_def
        and_then_def joined_roles_def py_iter_def py_join_def py_str_def user_headers_def)

text \<open>
  C8, amended: from a v3 token the gateway builds the headers status \<^verbatim>\<open>Confirmed\<close>,
  project id and name, user id and name, comma-joined role names and auth token, with the
  service-catalog header set to \<^verbatim>\<open>None\<close>; from a token of the older shape it builds the
  same headers with the service catalog taken from \<^verbatim>\<open>serviceCatalog\<close>; after a successful
  authentication the headers are added to the environment passed on; after an
  authentication failure the answer is 401 with a \<^verbatim>\<open>WWW-Authenticate\<close> challenge naming
  the auth URL.
\<close>

theorem gateway_identity_headers:
  "(py_get t ''version'' = Inr (PStr ''v3'') \<and>
    py_getitem2 t ''project'' ''id'' = Inr pid \<and>
    py_getitem2 t ''project'' ''name'' = Inr pname \<and>
    py_getitem2 t ''user'' ''id'' = Inr uid \<and>
    py_getitem2 t ''user'' ''name'' = Inr uname \<and>
    py_getitem t ''roles'' = Inr (PList roles) \<and>
    list_all2 (\<lambda>r n. \<exists>f. r = PDict f \<and> map_of f ''name'' = Some (PStr n)) roles names \<and>
    py_getitem t ''auth_token'' = Inr tok \<longrightarrow>
    build_user_headers t =
      Inr [(''keystone.token_info'', PDict [(''token'', t)]),
           (''HTTP_X_IDENTITY_STATUS'', PStr ''Confirmed''),
           (''HTTP_X_PROJECT_ID'', pid),
           (''HTTP_X_PROJECT_NAME'', pname),
           (''HTTP_X_USER_ID'', uid),
           (''HTTP_X_USER_NAME'', uname),
           (''HTTP_X_ROLES'', PStr (join '','' names)),
           (''HTTP_X_SERVICE_CATALOG'', PNone),
           (''HTTP_X_AUTH_TOKEN'', tok)]) \<and>
   (py_get t ''version'' = Inr v \<and> v \<noteq> PStr ''v3'' \<and>
    py_getitem3 t ''token'' ''tenant'' ''id'' = Inr pid \<and>
    py_getitem3 t ''token'' ''tenant'' ''name'' = Inr pname \<and>
    py_getitem2 t ''user'' ''id'' = Inr uid \<and>
    py_getitem2 t ''user'' ''name'' = Inr uname \<and>
    py_getitem2 t ''user'' ''roles'' = Inr (PList roles) \<and>
    list_all2 (\<lambda>r n. \<exists>f. r = PDict f \<and> map_of f ''name'' = Some (PStr n)) roles names \<and>
    py_getitem t ''serviceCatalog'' = Inr catalog \<and>
    py_getitem2 t ''token'' ''id'' = Inr tok \<longrightarrow>
    build_user_headers t =
      Inr [(''keystone.token_info'', t),
           (''HTTP_X_IDENTITY_STATUS'', PStr ''Confirmed''),
           (''HTTP_X_PROJECT_ID'', pid),
           (''HTTP_X_PROJECT_NAME'', pname),
           (''HTTP_X_USER_ID'', uid),
           (''HTTP_X_USER_NAME'', uname),
           (''HTTP_X_ROLES'', PStr (join '','' names)),
           (''HTTP_X_SERVICE_CATALOG'', catalog),
           (''HTTP_X_AUTH_TOKEN'', tok)]) \<and>
   (truthy (env_get env ''HTTP_X_AUTH_USER'') \<and>
    get_access (env_get env ''HTTP_X_AUTH_USER'') (env_get env ''HTTP_X_AUTH_KEY'')
      (env_get env ''HTTP_X_AUTH_USER'') (env_get env ''HTTP_X_AUTH_URL'') = Inr t \<and>
    build_user_headers t = Inr hdrs \<longrightarrow>
    snd (call get_access env) = Forward (env ++ map_of hdrs)) \<and>
   (truthy (env_get env ''HTTP_X_AUTH_USER'') \<and>
    get_access (env_get env ''HTTP_X_AUTH_USER'') (env_get env ''HTTP_X_AUTH_KEY'')
      (env_get env ''HTTP_X_AUTH_USER'') (env_get env ''HTTP_X_AUTH_URL'') = Inl e \<and>
    is_auth_failure e \<longrightarrow>
    snd (call get_access env) =
      Respond \<lparr>http_code = 401, detail = ''Authentication required'',
               headers = [(''WWW-Authenticate'',
                           ''Keystone uri='' @ [CHR 0x27] @
                           py_str (env_get env ''HTTP_X_AUTH_URL'') @ [CHR 0x27])]\<rparr>)"
  using build_user_headers_v3 [of t pid pname uid uname roles names tok]
        build_user_headers_v2 [of t v pid pname uid uname roles names catalog tok]
        call_forwards [of env get_access t hdrs]
        call_rejects [of env get_access e]
  by blast

text \<open>The amended C8 at a token of each shape, a granted request and a refused one.\<close>

theorem gateway_identity_headers_witness:
  "build_user_headers v3_token =
     Inr [(''keystone.token_info'', PDict [(''token'', v3_token)]),
          (''HTTP_X_IDENTITY_STATUS'', PStr ''Confirmed''),
          (''HTTP_X_PROJECT_ID'', PStr ''p-1''),
          (''HTTP_X_PROJECT_NAME'', PStr ''demo''),
          (''HTTP_X_USER_ID'', PStr ''u-1''),
          (''HTTP_X_USER_NAME'', PStr ''alice''),
          (''HTTP_X_ROLES'', PStr ''admin,member''),
          (''HTTP_X_SERVICE_CATALOG'', PNone),
          (''HTTP_X_AUTH_TOKEN'', PStr ''tok-3'')] \<and>
   build_user_headers v2_token =
     Inr [(''keystone.token_info'', v2_token),
          (''HTTP_X_IDENTITY_STATUS'', PStr ''Confirmed''),
          (''HTTP_X_PROJECT_ID'', PStr ''p-1''),
          (''HTTP_X_PROJECT_NAME'', PStr ''demo''),
          (''HTTP_X_USER_ID'', PStr ''u-1''),
          (''HTTP_X_USER_NAME'', PStr ''alice''),
          (''HTTP_X_ROLES'', PStr ''admin,member''),
          (''HTTP_X_SERVICE_CATALOG'', PList [PDict [(''type'', PStr ''compute'')]]),
          (''HTTP_X_AUTH_TOKEN'', PStr ''tok-2'')] \<and>
   snd (call (granting v2_token) alice_env) =
     Forward (alice_env ++ map_of
       [(''keystone.token_info'', v2_token),
        (''HTTP_X_IDENTITY_STATUS'', PStr ''Confirmed''),
        (''HTTP_X_PROJECT_ID'', PStr ''p-1''),
        (''HTTP_X_PROJECT_NAME'', PStr ''demo''),
        (''HTTP_X_USER_ID'', PStr ''u-1''),
        (''HTTP_X_USER_NAME'', PStr ''alice''),
        (''HTTP_X_ROLES'', PStr ''admin,member''),
        (''HTTP_X_SERVICE_CATALOG'', PList [PDict [(''type'', PStr ''compute'')]]),
        (''HTTP_X_AUTH_TOKEN'', PStr ''tok-2'')]) \<and>
   snd (call (refusing (Keystone KsUnauthorized)) alice_env) =
     Respond \<lparr>http_code = 401, detail = ''Authentication required'',
              headers = [(''WWW-Authenticate'',
                          ''Keystone uri='' @ [CHR 0x27] @ ''http://keystone:5000/v3'' @
                          [CHR 0x27])]\<rparr>"
proof -
  have roles: "list_all2 (\<lambda>r n. \<exists>f. r = PDict f \<and> map_of f ''name'' = Some (PStr n))
                 [PDict [(''name'', PStr ''admin'')], PDict [(''name'', PStr ''member'')]]
                 [''admin'', ''member'']"
    by simp
  have v3: "py_get v3_token ''version'' = Inr (PStr ''v3'') \<and>
    py_getitem2 v3_token ''project'' ''id'' = Inr (PStr ''p-1'') \<and>
    py_getitem2 v3_token ''project'' ''name'' = Inr (PStr ''demo'') \<and>
    py_getitem2 v3_token ''user'' ''id'' = Inr (PStr ''u-1'') \<and>
    py_getitem2 v3_token ''user'' ''name'' = Inr (PStr ''alice'') \<and>
    py_getitem v3_token ''roles'' =
      Inr (PList [PDict [(''name'', PStr ''admin'')], PDict [(''name'', PStr ''member'')]]) \<and>
    py_getitem v3_token ''auth_token'' = Inr (PStr ''tok-3'')"
    by (simp add: v3_token_def py_get_def py_getitem_def py_getitem2_def and_then_def)
  have v2: "py_get v2_token ''version'' = Inr (PStr ''v2.0'') \<and> PStr ''v2.0'' \<noteq> PStr ''v3'' \<and>
    py_getitem3 v2_token ''token'' ''tenant'' ''id'' = Inr (PStr ''p-1'') \<and>
    py_getitem3 v2_token ''token'' ''tenant'' ''name'' = Inr (PStr ''demo'') \<and>
    py_getitem2 v2_token ''user'' ''id'' = Inr (PStr ''u-1'') \<and>
    py_getitem2 v2_token ''user'' ''name'' = Inr (PStr ''alice'') \<and>
    py_getitem2 v2_token ''user'' ''roles'' =
      Inr (PList [PDict [(''name'', PStr ''admin'')], PDict [(''name'', PStr ''member'')]]) \<and>
    py_getitem v2_token ''serviceCatalog'' = Inr (PList [PDict [(''type'', PStr ''compute'')]]) \<and>
    py_getitem2 v2_token ''token'' ''id'' = Inr (PStr ''tok-2'')"
    by (simp add: v2_token_def py_get_def py_getitem_def py_getitem2_def py_getitem3_def
          and_then_def)
  have env: "truthy (env_get alice_env ''HTTP_X_AUTH_USER'') \<and>
             env_get alice_env ''HTTP_X_AUTH_URL'' = PStr ''http://keystone:5000/v3''"
    by (simp add: alice_env_def env_get_def)
  have j: "join '','' [''admin'', ''member''] = ''admin,member''" by simp
  have a: "build_user_headers v3_token =
     Inr [(''keystone.token_info'', PDict [(''token'', v3_token)]),
          (''HTTP_X_IDENTITY_STATUS'', PStr ''Confirmed''),
          (''HTTP_X_PROJECT_ID'', PStr ''p-1''),
          (''HTTP_X_PROJECT_NAME'', PStr ''demo''),
          (''HTTP_X_USER_ID'', PStr ''u-1''),
          (''HTTP_X_USER_NAME'', PStr ''alice''),
          (''HTTP_X_ROLES'', PStr ''admin,member''),
          (''HTTP_X_SERVICE_CATALOG'', PNone),
          (''HTTP_X_AUTH_TOKEN'', PStr ''tok-3'')]"
    using gateway_identity_headers
            [where t = v3_token and pid = "PStr ''p-1''" and pname = "PStr ''demo''"
               and uid = "PStr ''u-1''" and uname = "PStr ''alice''"
               and roles = "[PDict [(''name'', PStr ''admin'')], PDict [(''name'', PStr ''member'')]]"
               and names = "[''admin'', ''member'']" and tok = "PStr ''tok-3''"]
          v3 roles j
    by simp
  have b: "build_user_headers v2_token =
     Inr [(''keystone.token_info'', v2_token),
          (''HTTP_X_IDENTITY_STATUS'', PStr ''Confirmed''),
          (''HTTP_X_PROJECT_ID'', PStr ''p-1''),
          (''HTTP_X_PROJECT_NAME'', PStr ''demo''),
          (''HTTP_X_USER_ID'', PStr ''u-1''),
          (''HTTP_X_USER_NAME'', PStr ''alice''),
          (''HTTP_X_ROLES'', PStr ''admin,member''),
          (''HTTP_X_SERVICE_CATALOG'', PList [PDict [(''type'', PStr ''compute'')]]),
          (''HTTP_X_AUTH_TOKEN'', PStr ''tok-2'')]"
    using gateway_identity_headers
            [where t = v2_token and v = "PStr ''v2.0''" and pid = "PStr ''p-1''"
               and pname = "PStr ''demo''"
               and uid = "PStr ''u-1''" and uname = "PStr ''alice''"
               and roles = "[PDict [(''name'', PStr ''admin'')], PDict [(''name'', PStr ''member'')]]"
               and names = "[''admin'', ''member'']" and tok = "PStr ''tok-2''"
               and catalog = "PList [PDict [(''type'', PStr ''compute'')]]"]
          v2 roles j
    by simp
  have c: "snd (call (granting v2_token) alice_env) =
     Forward (alice_env ++ map_of
       [(''keystone.token_info'', v2_token),
        (''HTTP_X_IDENTITY_STATUS'', PStr ''Confirmed''),
        (''HTTP_X_PROJECT_ID'', PStr ''p-1''),
        (''HTTP_X_PROJECT_NAME'', PStr ''demo''),
        (''HTTP_X_USER_ID'', PStr ''u-1''),
        (''HTTP_X_USER_NAME'', PStr ''alice''),
        (''HTTP_X_ROLES'', PStr ''admin,member''),
        (''HTTP_X_SERVICE_CATALOG'', PList [PDict [(''type'', PStr ''compute'')]]),
        (''HTTP_X_AUTH_TOKEN'', PStr ''tok-2'')])"
    using gateway_identity_headers
            [where env = alice_env and get_access = "granting v2_token" and t = v2_token
               and hdrs = "[(''keystone.token_info'', v2_token),
        (''HTTP_X_IDENTITY_STATUS'', PStr ''Confirmed''),
        (''HTTP_X_PROJECT_ID'', PStr ''p-1''),
        (''HTTP_X_PROJECT_NAME'', PStr ''demo''),
        (''HTTP_X_USER_ID'', PStr ''u-1''),
        (''HTTP_X_USER_NAME'', PStr ''alice''),
        (''HTTP_X_ROLES'', PStr ''admin,member''),
        (''HTTP_X_SERVICE_CATALOG'', PList [PDict [(''type'', PStr ''compute'')]]),
        (''HTTP_X_AUTH_TOKEN'', PStr ''tok-2'')]"]
          env b
    by (simp add: granting_def)
  have d: "snd (call (refusing (Keystone KsUnauthorized)) alice_env) =
     Respond \<lparr>http_code = 401, detail = ''Authentication required'',
              headers = [(''WWW-Authenticate'',
                          ''Keystone uri='' @ [CHR 0x27] @ ''http://keystone:5000/v3'' @
                          [CHR 0x27])]\<rparr>"
    using gateway_identity_headers
            [where env = alice_env and get_access = "refusing (Keystone KsUnauthorized)"
               and e = "Keystone KsUnauthorized"]
          env
    by (simp add: refusing_def is_auth_failure_def py_str_def)
  from a b c d show ?thesis by (simp only:)
qed

text \<open>
  C10: a request whose \<^verbatim>\<open>X-Auth-User\<close> header is absent or empty is answered with 401
  and the \<^verbatim>\<open>WWW-Authenticate\<close> challenge, and the auth service is not contacted: the
  tenant is the user name, and the check on the tenant comes first.
\<close>

theorem call_without_user:
  assumes "env ''HTTP_X_AUTH_USER'' = None \<or> env ''HTTP_X_AUTH_USER'' = Some (PStr [])"
  shows "call get_access env =
           ([], Respond \<lparr>http_code = 401, detail = ''Authentication required'',
                         headers = [(''WWW-Authenticate'',
                                     ''Keystone uri='' @ [CHR 0x27] @
                                     py_str (env_get env ''HTTP_X_AUTH_URL'') @ [CHR 0x27])]\<rparr>)"
  using assms by (auto simp: call_def env_get_def reject_request_def)

text \<open>C10 at a request with a key and an auth URL but no user, before a willing service.\<close>

theorem call_without_user_witness:
  "call (granting v3_token) anonymous_env =
     ([], Respond \<lparr>http_code = 401, detail = ''Authentication required'',
                   headers = [(''WWW-Authenticate'',
                     ''Keystone uri='' @ [CHR 0x27] @ ''http://keystone:5000/v3'' @ [CHR 0x27])]\<rparr>)"
proof -
  have h: "anonymous_env ''HTTP_X_AUTH_USER'' = None \<or> anonymous_env ''HTTP_X_AUTH_USER'' = Some (PStr [])"
    by (simp add: anonymous_env_def)
  have u: "env_get anonymous_env ''HTTP_X_AUTH_URL'' = PStr ''http://keystone:5000/v3''"
    by (simp add: env_get_def anonymous_env_def)
  from call_without_user [where env = anonymous_env and get_access = "granting v3_token"]
       h u
  show ?thesis by (simp add: py_str_def)
qed

end
